theory Spec2Isabelle
  imports Complex_Main "HOL-Library.AList" "HOL-Library.Word"
begin

section \<open>JavaScript values\<close>

text \<open>
  FormWeaver is TypeScript running in the browser.  Spreadsheet cells and the rows built
  from them are typed \<open>any\<close>, so they are modelled by the JavaScript values a cell can
  hold.  A \<open>number\<close> is modelled as a real: IEEE rounding, infinities and NaN are outside
  the model.  A string is a list of 8-bit characters.  A \<open>Uint8Array\<close> or \<open>ArrayBuffer\<close>
  is a list of bytes.
\<close>

type_synonym bytes = "8 word list"

datatype jsval = JUndefined | JNull | JBool bool | JNum real | JStr string

text \<open>JavaScript truthiness: \<open>undefined\<close>, \<open>null\<close>, \<open>false\<close>, \<open>0\<close> and \<open>''\<close> are falsy.\<close>

fun truthy :: "jsval \<Rightarrow> bool" where
  "truthy JUndefined = False"
| "truthy JNull = False"
| "truthy (JBool v) = v"
| "truthy (JNum n) = (n \<noteq> 0)"
| "truthy (JStr s) = (s \<noteq> [])"

text \<open>The operator \<open>a || d\<close> on values, on numbers, on optional numbers and on strings.\<close>

definition js_or :: "jsval \<Rightarrow> jsval \<Rightarrow> jsval" where
  "js_or a d = (if truthy a then a else d)"

definition num_or :: "real \<Rightarrow> real \<Rightarrow> real" where
  "num_or a d = (if a \<noteq> 0 then a else d)"

definition opt_num_or :: "real option \<Rightarrow> real \<Rightarrow> real" where
  "opt_num_or a d = (case a of None \<Rightarrow> d | Some n \<Rightarrow> num_or n d)"

definition str_or :: "string \<Rightarrow> string \<Rightarrow> string" where
  "str_or a d = (if a \<noteq> [] then a else d)"

text \<open>
  \<open>String(v)\<close>.  The decimal rendering of a number is the engine's; it is the parameter
  \<open>numStr\<close>.
\<close>

fun toString :: "(real \<Rightarrow> string) \<Rightarrow> jsval \<Rightarrow> string" where
  "toString numStr JUndefined = ''undefined''"
| "toString numStr JNull = ''null''"
| "toString numStr (JBool v) = (if v then ''true'' else ''false'')"
| "toString numStr (JNum n) = numStr n"
| "toString numStr (JStr s) = s"

text \<open>
  A plain object (\<open>Record<string, any>\<close>) is the association list of its own
  properties in insertion order; assigning to an existing key keeps its position and
  \<open>Object.values\<close> lists the values in key order.  (JavaScript lists integer-like
  keys before the others; nothing below depends on the order of the values.)  Every
  object here is made by \<open>{}\<close>, so behind its own properties stands
  \<open>Object.prototype\<close>.
\<close>

type_synonym jsobject = "(string \<times> jsval) list"

text \<open>The value of an own property, \<open>undefined\<close> when the object has none of this name.\<close>

definition getProp :: "jsobject \<Rightarrow> string \<Rightarrow> jsval" where
  "getProp obj k = (case map_of obj k of None \<Rightarrow> JUndefined | Some v \<Rightarrow> v)"

text \<open>
  The names under which \<open>Object.prototype\<close> holds something: functions, and under
  \<open>__proto__\<close> an accessor whose getter gives \<open>Object.prototype\<close> itself.  A read
  \<open>obj[k]\<close> finds them when \<open>obj\<close> has no own property \<open>k\<close>.
\<close>

definition objectPrototypeNames :: "string list" where
  "objectPrototypeNames =
     [''constructor'', ''__defineGetter__'', ''__defineSetter__'', ''hasOwnProperty'',
      ''__lookupGetter__'', ''__lookupSetter__'', ''isPrototypeOf'', ''propertyIsEnumerable'',
      ''toString'', ''valueOf'', ''__proto__'', ''toLocaleString'']"

definition objectValues :: "jsobject \<Rightarrow> jsval list" where
  "objectValues obj = map snd obj"

text \<open>Reading an array by index: a hole or an index past the end is \<open>undefined\<close>.\<close>

definition arrayGet :: "jsval list \<Rightarrow> nat \<Rightarrow> jsval" where
  "arrayGet arr i = (if i < length arr then arr ! i else JUndefined)"

section \<open>types/index.ts\<close>

datatype textAlign = AlignLeft | AlignCenter | AlignRight
datatype fontWeight = WeightNormal | WeightBold
datatype fontStyle = StyleNormal | StyleItalic

record PDFField =
  field_id :: string
  columnName :: string
  isQRCode :: bool
  pageIndex :: int
  field_x :: real
  field_y :: real
  field_width :: real
  field_height :: real
  scaleX :: "real option"
  scaleY :: "real option"
  angle :: "real option"
  fontSize :: real
  fill :: "string option"
  field_color :: "string option"
  fontFamily :: string
  field_textAlign :: textAlign
  field_fontWeight :: fontWeight
  field_fontStyle :: fontStyle
  textDecoration :: "string option"

record ExcelData =
  headers :: "jsval list"
  columns :: "jsval list"
  rows :: "jsobject list"

section \<open>lib/pdf-generator.ts: hexToRgb\<close>

record rgbTriple =
  rgb_r :: real
  rgb_g :: real
  rgb_b :: real

text \<open>The character class \<open>[a-f\d]\<close> under the flag \<open>i\<close>.\<close>

definition isHexDigit :: "char \<Rightarrow> bool" where
  "isHexDigit c = (let n = (of_char c :: nat) in
     (48 \<le> n \<and> n \<le> 57) \<or> (97 \<le> n \<and> n \<le> 102) \<or> (65 \<le> n \<and> n \<le> 70))"

definition hexDigitVal :: "char \<Rightarrow> nat" where
  "hexDigitVal c = (let n = (of_char c :: nat) in
     if 48 \<le> n \<and> n \<le> 57 then n - 48
     else if 97 \<le> n \<and> n \<le> 102 then n - 87
     else n - 55)"

text \<open>\<open>parseInt(s, 16)\<close> on a string of hexadecimal digits.\<close>

definition parseInt16 :: "string \<Rightarrow> nat" where
  "parseInt16 s = foldl (\<lambda>acc c. 16 * acc + hexDigitVal c) 0 s"

text \<open>
  The three groups \<open>([a-f\d]{2})([a-f\d]{2})([a-f\d]{2})$\<close> matched from the current
  position to the end of the input.
\<close>

definition hexGroups :: "string \<Rightarrow> (string \<times> string \<times> string) option" where
  "hexGroups s =
     (if length s = 6 \<and> list_all isHexDigit s
      then Some (take 2 s, take 2 (drop 2 s), drop 4 s) else None)"

text \<open>
  \<open>/^#?([a-f\d]{2})([a-f\d]{2})([a-f\d]{2})$/i.exec(hex)\<close>: the greedy \<open>#?\<close> first
  takes a leading \<open>#\<close>; when the rest does not match, it backtracks and matches empty.
\<close>

definition hexRegexExec :: "string \<Rightarrow> (string \<times> string \<times> string) option" where
  "hexRegexExec hex =
     (case hex of
        [] \<Rightarrow> hexGroups hex
      | c # rest \<Rightarrow>
          if c = CHR ''#'' then
            (case hexGroups rest of Some gs \<Rightarrow> Some gs | None \<Rightarrow> hexGroups hex)
          else hexGroups hex)"

text \<open>The parameter defaults to \<open>'#000000'\<close> when the argument is \<open>undefined\<close>.\<close>

definition hexToRgb :: "string option \<Rightarrow> rgbTriple" where
  "hexToRgb hexArg =
     (let hex = (case hexArg of None \<Rightarrow> ''#000000'' | Some h \<Rightarrow> h) in
      case hexRegexExec hex of
        Some (g1, g2, g3) \<Rightarrow>
          \<lparr>rgb_r = real (parseInt16 g1) / 255, rgb_g = real (parseInt16 g2) / 255,
           rgb_b = real (parseInt16 g3) / 255\<rparr>
      | None \<Rightarrow> \<lparr>rgb_r = 0, rgb_g = 0, rgb_b = 0\<rparr>)"

section \<open>The document writer (pdf-lib) and the other collaborators\<close>

text \<open>
  A page size as \<open>page.getSize()\<close> and the entries of \<open>previewSizes\<close> give it.
\<close>

record size2 =
  width :: real
  height :: real

datatype pdffont = PDFFont bytes

datatype pdfcolor = RGB real real real

text \<open>pdf-lib's \<open>rgb\<close> rejects a component outside \<open>[0, 1]\<close> by throwing.\<close>

definition rgb :: "real \<Rightarrow> real \<Rightarrow> real \<Rightarrow> pdfcolor option" where
  "rgb cr cg cb =
     (if 0 \<le> cr \<and> cr \<le> 1 \<and> 0 \<le> cg \<and> cg \<le> 1 \<and> 0 \<le> cb \<and> cb \<le> 1
      then Some (RGB cr cg cb) else None)"

text \<open>The options object handed to \<open>page.drawText\<close>; \<open>opt_rotate\<close> is in degrees.\<close>

record drawTextOptions =
  opt_x :: real
  opt_y :: real
  opt_font :: pdffont
  opt_size :: real
  opt_color :: pdfcolor
  opt_rotate :: real

text \<open>
  What a page can be asked to draw.  \<open>DrawImage\<close> carries the image bytes, the position
  and the width and height.
\<close>

datatype drawCall =
    DrawText string drawTextOptions
  | DrawImage bytes real real real real

text \<open>
  A document instance: the sizes of its pages, the fonts embedded into it and the draw
  calls made on it, each with the zero-based index of its page, in the order they were
  made.
\<close>

record pdfdoc =
  pages :: "size2 list"
  fonts :: "pdffont list"
  content :: "(nat \<times> drawCall) list"

datatype error =
    CriticalFontError
  | EmbedFontError
  | ColorRangeError
  | DrawTextError
  | LoadError
  | SaveError
  | ZipError

text \<open>
  The calls that leave the program.  Each may fail on its own, so each is a parameter
  that is told which call it is: the row index, and for the calls made while a field is
  processed the field's id.
  \<^item> \<open>numToString\<close>: the engine's rendering of a number as a string;
  \<^item> \<open>inheritedToString k\<close>: the engine's rendering, by \<open>String\<close>, of what
    \<open>Object.prototype\<close> holds under the name \<open>k\<close>;
  \<^item> \<open>load i templateBytes\<close>: \<open>PDFDocument.load\<close> for row \<open>i\<close>, \<open>None\<close> when it throws;
  \<^item> \<open>fetch i fid family path\<close>: \<open>fetch(path)\<close> followed by \<open>arrayBuffer()\<close> inside
    \<open>getFontBytes(family)\<close>, \<open>None\<close> when the response is not ok or either call throws;
  \<^item> \<open>embedFont i fid fontBytes\<close>: \<open>pdfDoc.embedFont\<close>, \<open>None\<close> when it throws;
  \<^item> \<open>heightAtSize font size\<close>: the font metric;
  \<^item> \<open>drawTextThrows i fid value options\<close>: whether \<open>page.drawText\<close> throws;
  \<^item> \<open>save i doc\<close>: \<open>pdfDoc.save()\<close> for row \<open>i\<close>, \<open>None\<close> when it throws;
  \<^item> \<open>generateAsync files\<close>: JSZip's \<open>generateAsync\<close>, \<open>None\<close> when it throws.
\<close>

record externals =
  numToString :: "real \<Rightarrow> string"
  inheritedToString :: "string \<Rightarrow> string"
  load :: "nat \<Rightarrow> bytes \<Rightarrow> pdfdoc option"
  fetch :: "nat \<Rightarrow> string \<Rightarrow> string \<Rightarrow> string \<Rightarrow> bytes option"
  embedFont :: "nat \<Rightarrow> string \<Rightarrow> bytes \<Rightarrow> pdffont option"
  heightAtSize :: "pdffont \<Rightarrow> real \<Rightarrow> real"
  drawTextThrows :: "nat \<Rightarrow> string \<Rightarrow> string \<Rightarrow> drawTextOptions \<Rightarrow> bool"
  save :: "nat \<Rightarrow> pdfdoc \<Rightarrow> bytes option"
  generateAsync :: "(string \<times> bytes) list \<Rightarrow> bytes option"

section \<open>lib/pdf-generator.ts: getFontBytes\<close>

definition fontPaths :: "string \<rightharpoonup> string" where
  "fontPaths = map_of
     [(''Inter'', ''/fonts/Inter-Regular.ttf''),
      (''Inter-Bold'', ''/fonts/Inter-Regular.ttf''),
      (''Roboto'', ''/fonts/Inter-Regular.ttf''),
      (''Arial'', ''/fonts/Inter-Regular.ttf'')]"

text \<open>\<open>fontPaths[fontFamily] || fontPaths['Inter']\<close>\<close>

definition fontPathOf :: "string \<Rightarrow> string" where
  "fontPathOf family =
     (case fontPaths family of
        Some p \<Rightarrow> p
      | None \<Rightarrow> (case fontPaths ''Inter'' of Some p \<Rightarrow> p | None \<Rightarrow> ''undefined''))"

text \<open>
  The module-level \<open>fontCache\<close> is passed in and returned.  A failed load of a family
  other than Inter falls back to loading Inter; a failed load of Inter throws.
\<close>

function getFontBytes ::
  "(string \<Rightarrow> string \<Rightarrow> bytes option) \<Rightarrow> string \<Rightarrow> (string \<rightharpoonup> bytes)
     \<Rightarrow> (error + bytes) \<times> (string \<rightharpoonup> bytes)" where
  "getFontBytes fetchFn family cache =
     (case cache family of
        Some cached \<Rightarrow> (Inr cached, cache)
      | None \<Rightarrow>
          (case fetchFn family (fontPathOf family) of
             Some fontBytes \<Rightarrow> (Inr fontBytes, cache(family \<mapsto> fontBytes))
           | None \<Rightarrow>
               if family \<noteq> ''Inter'' then getFontBytes fetchFn ''Inter'' cache
               else (Inl CriticalFontError, cache)))"
  by pat_completeness auto
termination
  by (relation "measure (\<lambda>(fetchFn, family, cache). if family = ''Inter'' then 0 else 1)") auto

declare getFontBytes.simps [simp del]

section \<open>lib/pdf-generator.ts: generatePDFs\<close>

text \<open>
  What one row's iteration carries: the document instance \<open>pdfDoc\<close>, the row-local map
  \<open>loadedFonts\<close> and the module-level \<open>fontCache\<close>.
\<close>

record rowState =
  pdfDoc :: pdfdoc
  loadedFonts :: "string \<rightharpoonup> pdffont"
  fontCache :: "string \<rightharpoonup> bytes"

text \<open>
  Lines 121 to 130, the first half of the inner \<open>try\<close>: the font is taken from
  \<open>loadedFonts\<close>, or loaded, embedded and remembered.  \<open>Inl\<close> is a throw, with the state
  reached when it happened.
\<close>

definition loadFont ::
  "externals \<Rightarrow> nat \<Rightarrow> PDFField \<Rightarrow> string \<Rightarrow> rowState \<Rightarrow> (error + pdffont) \<times> rowState" where
  "loadFont ext rowIndex field fontName st =
     (case loadedFonts st fontName of
        Some customFont \<Rightarrow> (Inr customFont, st)
      | None \<Rightarrow>
          (case getFontBytes (fetch ext rowIndex (field_id field)) fontName (fontCache st) of
             (Inl e, cache') \<Rightarrow> (Inl e, st\<lparr>fontCache := cache'\<rparr>)
           | (Inr fontBytes, cache') \<Rightarrow>
               (case embedFont ext rowIndex (field_id field) fontBytes of
                  None \<Rightarrow> (Inl EmbedFontError, st\<lparr>fontCache := cache'\<rparr>)
                | Some customFont \<Rightarrow>
                    (Inr customFont,
                     st\<lparr>pdfDoc := (pdfDoc st)\<lparr>fonts := fonts (pdfDoc st) @ [customFont]\<rparr>,
                        loadedFonts := (loadedFonts st)(fontName \<mapsto> customFont),
                        fontCache := cache'\<rparr>))))"

text \<open>
  Lines 132 to 150, the second half of the inner \<open>try\<close>: the geometry in the page's own
  coordinates and the call of \<open>page.drawText\<close>.  The field's \<open>isQRCode\<close> flag is not
  read.
\<close>

definition drawField ::
  "externals \<Rightarrow> nat \<Rightarrow> PDFField \<Rightarrow> nat \<Rightarrow> real \<Rightarrow> real \<Rightarrow> string \<Rightarrow> pdffont \<Rightarrow> rowState
     \<Rightarrow> error + rowState" where
  "drawField ext rowIndex field pageIdx originalPdfHeight scaleFactor val customFont st =
     (let pdfX = field_x field * scaleFactor;
          pdfFontSize = num_or (fontSize field) 12 * opt_num_or (scaleX field) 1 * scaleFactor;
          fontHeightInPdf = heightAtSize ext customFont pdfFontSize;
          pdfY = originalPdfHeight - (field_y field * scaleFactor) - fontHeightInPdf * 0.8;
          color = hexToRgb (fill field)
      in case rgb (rgb_r color) (rgb_g color) (rgb_b color) of
           None \<Rightarrow> Inl ColorRangeError
         | Some c \<Rightarrow>
             (let options = \<lparr>opt_x = pdfX, opt_y = pdfY, opt_font = customFont,
                             opt_size = pdfFontSize, opt_color = c,
                             opt_rotate = - opt_num_or (angle field) 0\<rparr>
              in if drawTextThrows ext rowIndex (field_id field) val options
                 then Inl DrawTextError
                 else Inr (st\<lparr>pdfDoc := (pdfDoc st)\<lparr>content :=
                        content (pdfDoc st) @ [(pageIdx, DrawText val options)]\<rparr>\<rparr>)))"

text \<open>
  \<open>String(row[field.columnName] || '')\<close>, line 112.  The read finds the row's own
  property; failing that, what \<open>Object.prototype\<close> holds under the name, which is an
  object or a function and so truthy; failing that, \<open>undefined\<close>.
\<close>

definition columnValue :: "externals \<Rightarrow> jsobject \<Rightarrow> string \<Rightarrow> string" where
  "columnValue ext row k =
     (case map_of row k of
        Some v \<Rightarrow> toString (numToString ext) (js_or v (JStr []))
      | None \<Rightarrow>
          if k \<in> set objectPrototypeNames then inheritedToString ext k
          else toString (numToString ext) (js_or JUndefined (JStr [])))"

text \<open>
  The body of the loop over the fields, lines 97 to 153.  Each \<open>continue\<close> returns the
  state as it is; the \<open>catch\<close> of the inner \<open>try\<close> only logs, so a throw leaves the
  state reached before it.
\<close>

definition processField ::
  "externals \<Rightarrow> nat \<Rightarrow> jsobject \<Rightarrow> (int \<rightharpoonup> size2) \<Rightarrow> PDFField \<Rightarrow> rowState \<Rightarrow> rowState" where
  "processField ext rowIndex row previewSizes field st =
     (let pageIdx = pageIndex field - 1 in
      if pageIdx < 0 \<or> pageIdx \<ge> int (length (pages (pdfDoc st))) then st
      else
        (let page = pages (pdfDoc st) ! nat pageIdx in
         case previewSizes (pageIndex field) of
           None \<Rightarrow> st
         | Some previewSize \<Rightarrow>
             (let originalPdfWidth = width page;
                  originalPdfHeight = height page;
                  scaleFactor = originalPdfWidth / width previewSize;
                  val = columnValue ext row (columnName field)
              in if val = [] \<or> val = ''undefined'' then st
                 else
                   (case loadFont ext rowIndex field (str_or (fontFamily field) ''Inter'') st of
                      (Inl e, st') \<Rightarrow> st'
                    | (Inr customFont, st') \<Rightarrow>
                        (case drawField ext rowIndex field (nat pageIdx) originalPdfHeight
                                scaleFactor val customFont st' of
                           Inl e \<Rightarrow> st'
                         | Inr st'' \<Rightarrow> st'')))))"

text \<open>\<open>for (const field of fields)\<close>\<close>

fun fieldLoop ::
  "externals \<Rightarrow> nat \<Rightarrow> jsobject \<Rightarrow> (int \<rightharpoonup> size2) \<Rightarrow> PDFField list \<Rightarrow> rowState \<Rightarrow> rowState" where
  "fieldLoop ext rowIndex row previewSizes [] st = st"
| "fieldLoop ext rowIndex row previewSizes (field # rest) st =
     fieldLoop ext rowIndex row previewSizes rest
       (processField ext rowIndex row previewSizes field st)"

text \<open>
  The outer \<open>try\<close> of one row, lines 85 to 159: open the template, run the fields, save.
  \<open>Inl\<close> is what the \<open>catch\<close> at line 160 receives.  The font cache outlives the row
  either way.
\<close>

definition processRow ::
  "externals \<Rightarrow> bytes \<Rightarrow> PDFField list \<Rightarrow> (int \<rightharpoonup> size2) \<Rightarrow> nat \<Rightarrow> jsobject
     \<Rightarrow> (string \<rightharpoonup> bytes) \<Rightarrow> (error + bytes) \<times> (string \<rightharpoonup> bytes)" where
  "processRow ext templateBytes fieldList previewSizes rowIndex row cache =
     (case load ext rowIndex templateBytes of
        None \<Rightarrow> (Inl LoadError, cache)
      | Some doc \<Rightarrow>
          (let st = fieldLoop ext rowIndex row previewSizes fieldList
                      \<lparr>pdfDoc = doc, loadedFonts = Map.empty, fontCache = cache\<rparr>
           in case save ext rowIndex (pdfDoc st) of
                None \<Rightarrow> (Inl SaveError, fontCache st)
              | Some pdfBytes \<Rightarrow> (Inr pdfBytes, fontCache st)))"

text \<open>
  The loop over the rows, lines 81 to 164, from row \<open>rowIndex\<close> on: a row that succeeds
  pushes its buffer onto \<open>pdfs\<close>, a row that throws is logged and the loop goes on.
\<close>

fun rowLoop ::
  "externals \<Rightarrow> bytes \<Rightarrow> PDFField list \<Rightarrow> (int \<rightharpoonup> size2) \<Rightarrow> nat \<Rightarrow> jsobject list
     \<Rightarrow> bytes list \<Rightarrow> (string \<rightharpoonup> bytes) \<Rightarrow> bytes list \<times> (string \<rightharpoonup> bytes)" where
  "rowLoop ext templateBytes fieldList previewSizes rowIndex [] pdfs cache = (pdfs, cache)"
| "rowLoop ext templateBytes fieldList previewSizes rowIndex (row # rest) pdfs cache =
     (case processRow ext templateBytes fieldList previewSizes rowIndex row cache of
        (Inr pdfBytes, cache') \<Rightarrow>
          rowLoop ext templateBytes fieldList previewSizes (Suc rowIndex) rest
            (pdfs @ [pdfBytes]) cache'
      | (Inl rowError, cache') \<Rightarrow>
          rowLoop ext templateBytes fieldList previewSizes (Suc rowIndex) rest pdfs cache')"

text \<open>
  \<open>generatePDFs\<close> returns the list \<open>pdfs\<close>; the second component is the font cache it
  leaves behind.  \<open>templateBytes\<close> is what \<open>templateFile.arrayBuffer()\<close> gave.
\<close>

definition generatePDFs ::
  "externals \<Rightarrow> bytes \<Rightarrow> ExcelData \<Rightarrow> PDFField list \<Rightarrow> (int \<rightharpoonup> size2)
     \<Rightarrow> (string \<rightharpoonup> bytes) \<Rightarrow> bytes list \<times> (string \<rightharpoonup> bytes)" where
  "generatePDFs ext templateBytes excelData fieldList previewSizes cache =
     rowLoop ext templateBytes fieldList previewSizes 0 (rows excelData) [] cache"

section \<open>lib/excel-parser.ts: parseExcelFile\<close>

datatype parseError = SheetNotFound string | SheetEmpty

text \<open>
  The assignment \<open>rowObj[k] = cell || ''\<close>.  The value assigned is a string, a number
  or \<open>true\<close>, never \<open>null\<close> or an object.  Under the name \<open>__proto__\<close> the assignment
  goes to the setter \<open>Object.prototype\<close> has for it, which ignores such a value: no
  property is stored.  Under every other name the own property is added or replaced.
\<close>

definition storeCell :: "string \<Rightarrow> jsval \<Rightarrow> jsobject \<Rightarrow> jsobject" where
  "storeCell k cell rowObj =
     (if k = ''__proto__'' then rowObj
      else AList.update k (js_or cell (JStr [])) rowObj)"

text \<open>
  The callback of \<open>headers.forEach\<close> run over the filtered headers:
  \<open>rowObj[header] = row[index] || ''\<close>, where \<open>index\<close> is the header's position in the
  filtered list and the key is the header as a string.
\<close>

definition buildRow :: "(real \<Rightarrow> string) \<Rightarrow> jsval list \<Rightarrow> jsval list \<Rightarrow> jsobject" where
  "buildRow numStr hdrs row =
     fold (\<lambda>(index, header) rowObj.
             storeCell (toString numStr header) (arrayGet row index) rowObj)
          (enumerate 0 hdrs) []"

text \<open>\<open>Object.values(row).some(val => val !== '')\<close>\<close>

definition someNonEmpty :: "jsobject \<Rightarrow> bool" where
  "someNonEmpty row = list_ex (\<lambda>val. val \<noteq> JStr []) (objectValues row)"

text \<open>
  The workbook is given by what \<open>XLSX.utils.sheet_to_json(worksheet, {header: 1})\<close>
  returns for each of its sheets: an array of rows, each an array of cells.  Reading
  the file and decoding the workbook come before and are not part of the function
  below.
\<close>

definition parseExcelFile ::
  "(real \<Rightarrow> string) \<Rightarrow> (string \<rightharpoonup> jsval list list) \<Rightarrow> string \<Rightarrow> parseError + ExcelData" where
  "parseExcelFile numStr workbook sheetName =
     (case workbook sheetName of
        None \<Rightarrow> Inl (SheetNotFound sheetName)
      | Some jsonData \<Rightarrow>
          (case jsonData of
             [] \<Rightarrow> Inl SheetEmpty
           | firstRow # dataRows \<Rightarrow>
               (let hdrs = filter truthy firstRow;
                    rws = filter someNonEmpty (map (buildRow numStr hdrs) dataRows)
                in Inr \<lparr>headers = hdrs, columns = hdrs, rows = rws\<rparr>)))"

section \<open>lib/zip-archiver.ts: createZipArchive\<close>

text \<open>\<open>String(n)\<close> for a natural number: its decimal digits.\<close>

definition digitChar :: "nat \<Rightarrow> char" where
  "digitChar d = ''0123456789'' ! d"

function natToString :: "nat \<Rightarrow> string" where
  "natToString n =
     (if n < 10 then [digitChar n] else natToString (n div 10) @ [digitChar (n mod 10)])"
  by pat_completeness auto
termination
  by (relation "measure (\<lambda>n. n)") auto

declare natToString.simps [simp del]

text \<open>\<open>s.padStart(n, c)\<close> for a one-character pad string.\<close>

definition padStart :: "nat \<Rightarrow> char \<Rightarrow> string \<Rightarrow> string" where
  "padStart n c s = replicate (n - length s) c @ s"

definition fileNameOf :: "string \<Rightarrow> nat \<Rightarrow> string" where
  "fileNameOf baseFileName index =
     baseFileName @ ''_'' @ padStart 3 CHR ''0'' (natToString (index + 1)) @ ''.pdf''"

text \<open>
  The files of the archive after the \<open>forEach\<close>: \<open>zip.file(name, data)\<close> adds an entry,
  or replaces the data of the entry that has this name.  (The folder entries JSZip
  adds for a name that contains a slash are not listed.)
\<close>

definition zipFiles :: "bytes list \<Rightarrow> string \<Rightarrow> (string \<times> bytes) list" where
  "zipFiles pdfBuffers baseFileName =
     fold (\<lambda>(index, pdfBytes) zip. AList.update (fileNameOf baseFileName index) pdfBytes zip)
          (enumerate 0 pdfBuffers) []"

definition createZipArchive :: "externals \<Rightarrow> bytes list \<Rightarrow> string \<Rightarrow> error + bytes" where
  "createZipArchive ext pdfBuffers baseFileName =
     (case generateAsync ext (zipFiles pdfBuffers baseFileName) of
        None \<Rightarrow> Inl ZipError
      | Some blob \<Rightarrow> Inr blob)"

section \<open>components/steps/Step3Generate.tsx\<close>

text \<open>The component's state that decides what is shown.\<close>

record step3State =
  isComplete :: bool
  shownError :: "error option"

text \<open>
  \<open>handleGenerate\<close>, lines 36 to 75: the buffers are generated and archived, and the
  completed state is set; a throw of the archiver sets the error instead.  The buffers
  are returned beside the state so that they can be compared with what is shown.
\<close>

definition handleGenerate ::
  "externals \<Rightarrow> bytes \<Rightarrow> ExcelData \<Rightarrow> PDFField list \<Rightarrow> (int \<rightharpoonup> size2)
     \<Rightarrow> (string \<rightharpoonup> bytes) \<Rightarrow> step3State \<times> bytes list" where
  "handleGenerate ext pdfFile excelData fieldList previewSizes cache =
     (let pdfBuffers = fst (generatePDFs ext pdfFile excelData fieldList previewSizes cache) in
      case createZipArchive ext pdfBuffers ''FormWeaver_Documents'' of
        Inl e \<Rightarrow> (\<lparr>isComplete = False, shownError = Some e\<rparr>, pdfBuffers)
      | Inr zipBlob \<Rightarrow> (\<lparr>isComplete = True, shownError = None\<rparr>, pdfBuffers))"

text \<open>
  What the component renders.  The completion screen, lines 77 to 100, shows two
  numbers: the one above ``Documents Created'' and the one above ``Fields Mapped''.
\<close>

datatype step3View =
    CompletionScreen (documentsCreated: nat) (fieldsMapped: nat)
  | GenerateScreen "error option"

definition Step3Generate :: "step3State \<Rightarrow> ExcelData \<Rightarrow> PDFField list \<Rightarrow> step3View" where
  "Step3Generate st excelData fieldList =
     (if isComplete st
      then CompletionScreen (length (rows excelData)) (length fieldList)
      else GenerateScreen (shownError st))"

section \<open>Notions of the specification\<close>

text \<open>
  The outcome of every row of a batch, in row order: the buffer of a row that was
  processed, or the error that made the row fail.  Row \<open>rowIndex\<close> starts from the font
  cache the rows before it left.
\<close>

fun rowOutcomes ::
  "externals \<Rightarrow> bytes \<Rightarrow> PDFField list \<Rightarrow> (int \<rightharpoonup> size2) \<Rightarrow> nat \<Rightarrow> jsobject list
     \<Rightarrow> (string \<rightharpoonup> bytes) \<Rightarrow> (error + bytes) list" where
  "rowOutcomes ext templateBytes fieldList previewSizes rowIndex [] cache = []"
| "rowOutcomes ext templateBytes fieldList previewSizes rowIndex (row # rest) cache =
     fst (processRow ext templateBytes fieldList previewSizes rowIndex row cache) #
     rowOutcomes ext templateBytes fieldList previewSizes (Suc rowIndex) rest
       (snd (processRow ext templateBytes fieldList previewSizes rowIndex row cache))"

text \<open>The buffers of the rows that succeeded, in order.\<close>

fun successes :: "(error + bytes) list \<Rightarrow> bytes list" where
  "successes [] = []"
| "successes (Inr buf # rest) = buf # successes rest"
| "successes (Inl e # rest) = successes rest"

text \<open>
  A colour string of the form the specification names: an optional \<open>#\<close> followed by
  exactly six hexadecimal digits.
\<close>

definition isHexColor :: "string \<Rightarrow> bool" where
  "isHexColor s =
     (let t = (case s of [] \<Rightarrow> s | c # rest \<Rightarrow> if c = CHR ''#'' then rest else s)
      in length t = 6 \<and> list_all (\<lambda>c. c \<in> set ''0123456789abcdefABCDEF'') t)"

section \<open>A worked example\<close>

text \<open>
  A two-page template in US Letter size, and collaborators that work except at three
  points: the font cannot be fetched while the field \<open>f-font\<close> is processed,
  \<open>drawText\<close> throws for the field \<open>f-draw\<close>, and saving throws for the row with index 2
  (the third row).  The font metric is taken to be the font size itself.
\<close>

definition demoTemplate :: pdfdoc where
  "demoTemplate =
     \<lparr>pages = [\<lparr>width = 612, height = 792\<rparr>, \<lparr>width = 612, height = 792\<rparr>],
      fonts = [], content = []\<rparr>"

definition demoExt :: externals where
  "demoExt =
     \<lparr>numToString = (\<lambda>n. ''0''),
      inheritedToString =
        (\<lambda>k. if k = ''__proto__'' then ''[object Object]''
             else if k = ''constructor'' then ''function Object() { [native code] }''
             else ''function '' @ k @ ''() { [native code] }''),
      load = (\<lambda>i templateBytes. Some demoTemplate),
      fetch = (\<lambda>i fid family path. if fid = ''f-font'' then None else Some [7]),
      embedFont = (\<lambda>i fid fontBytes. Some (PDFFont fontBytes)),
      heightAtSize = (\<lambda>font size. size),
      drawTextThrows = (\<lambda>i fid val options. fid = ''f-draw''),
      save = (\<lambda>i doc. if i = 2 then None else Some [of_nat i, of_nat (length (content doc))]),
      generateAsync = (\<lambda>files. Some (concat (map snd files)))\<rparr>"

text \<open>
  A text field on page 1, bound to the column \<open>name\<close>, and the preview size of page 1
  only, half the page's size.
\<close>

definition demoField :: PDFField where
  "demoField =
     \<lparr>field_id = ''f-name'', columnName = ''name'', isQRCode = False, pageIndex = 1,
      field_x = 100, field_y = 50, field_width = 80, field_height = 20,
      scaleX = Some 2, scaleY = Some 2, angle = Some 30, fontSize = 10,
      fill = Some ''#FF0033'', field_color = None, fontFamily = ''Roboto'',
      field_textAlign = AlignLeft, field_fontWeight = WeightNormal,
      field_fontStyle = StyleNormal, textDecoration = None\<rparr>"

definition demoPreviewSizes :: "int \<rightharpoonup> size2" where
  "demoPreviewSizes = [1 \<mapsto> \<lparr>width = 306, height = 396\<rparr>]"

definition demoRow :: jsobject where
  "demoRow = [(''name'', JStr ''Ada''), (''note'', JStr ''undefined''), (''code'', JStr ''X1'')]"

definition demoState :: rowState where
  "demoState = \<lparr>pdfDoc = demoTemplate, loadedFonts = Map.empty, fontCache = Map.empty\<rparr>"

text \<open>
  A sheet with two columns and three data rows.  The score of the first row is the
  number 0; the second row has an empty name and the score 0.
\<close>

definition demoWorkbook :: "string \<rightharpoonup> jsval list list" where
  "demoWorkbook =
     [''Sheet1'' \<mapsto>
        [[JStr ''name'', JStr ''score''],
         [JStr ''Ada'', JNum 0],
         [JStr [], JNum 0],
         [JStr ''Bob'', JNum 7]]]"

text \<open>A sheet whose header row names the same column twice.\<close>

definition twinWorkbook :: "string \<rightharpoonup> jsval list list" where
  "twinWorkbook = [''Sheet1'' \<mapsto> [[JStr ''A'', JStr ''A''], [JStr ''1'', JStr ''2'']]]"



text \<open>The number a string of decimal digits denotes, leading zeros allowed.\<close>

definition decimalValue :: "string \<Rightarrow> nat" where
  "decimalValue s = foldl (\<lambda>acc c. 10 * acc + (of_char c - 48)) 0 s"

section \<open>hexToRgb is total and stays in range\<close>

lemma isHexDigit_iff: "isHexDigit c \<longleftrightarrow> c \<in> set ''0123456789abcdefABCDEF''"
proof
  assume "c \<in> set ''0123456789abcdefABCDEF''"
  then show "isHexDigit c" by (auto simp: isHexDigit_def)
next
  assume h: "isHexDigit c"
  define n where "n = (of_char c :: nat)"
  have c: "c = char_of n" by (simp add: n_def)
  from h have "(48 \<le> n \<and> n \<le> 57) \<or> (97 \<le> n \<and> n \<le> 102) \<or> (65 \<le> n \<and> n \<le> 70)"
    by (simp add: isHexDigit_def Let_def n_def)
  then have "n \<in> {48,49,50,51,52,53,54,55,56,57,97,98,99,100,101,102,65,66,67,68,69,70}"
    unfolding insert_iff empty_iff by presburger
  then show "c \<in> set ''0123456789abcdefABCDEF''"
    unfolding c by (elim insertE emptyE) (simp_all add: char_of_def bit_0)
qed

lemma hexDigitVal_le: "isHexDigit c \<Longrightarrow> hexDigitVal c \<le> 15"
  by (auto simp: isHexDigit_def hexDigitVal_def Let_def)

lemma parseInt16_two: "length s = 2 \<Longrightarrow> list_all isHexDigit s \<Longrightarrow> parseInt16 s \<le> 255"
proof -
  assume a: "length s = 2" "list_all isHexDigit s"
  then obtain a1 a2 where s: "s = [a1, a2]" 
    by (metis (no_types, opaque_lifting) One_nat_def Suc_1 length_0_conv length_Suc_conv)
  with a have "hexDigitVal a1 \<le> 15" "hexDigitVal a2 \<le> 15" by (simp_all add: hexDigitVal_le)
  then show ?thesis by (simp add: s parseInt16_def)
qed


lemma hexGroups_bounds:
  assumes "hexGroups s = Some (g1, g2, g3)"
  shows "parseInt16 g1 \<le> 255 \<and> parseInt16 g2 \<le> 255 \<and> parseInt16 g3 \<le> 255"
proof -
  from assms have len: "length s = 6" and hex: "list_all isHexDigit s"
    and g: "g1 = take 2 s" "g2 = take 2 (drop 2 s)" "g3 = drop 4 s"
    by (auto simp: hexGroups_def split: if_splits)
  have "list_all isHexDigit g1" "list_all isHexDigit g2" "list_all isHexDigit g3"
    using hex unfolding g list_all_iff
    by (auto dest: in_set_takeD in_set_dropD)
  moreover have "length g1 = 2" "length g2 = 2" "length g3 = 2"
    using len by (simp_all add: g)
  ultimately show ?thesis by (simp add: parseInt16_two)
qed

lemma hexRegexExec_bounds:
  assumes "hexRegexExec hex = Some (g1, g2, g3)"
  shows "parseInt16 g1 \<le> 255 \<and> parseInt16 g2 \<le> 255 \<and> parseInt16 g3 \<le> 255"
  using assms
  by (auto simp: hexRegexExec_def split: list.splits if_splits option.splits
           dest: hexGroups_bounds)

lemma hexToRgb_range:
  "0 \<le> rgb_r (hexToRgb h) \<and> rgb_r (hexToRgb h) \<le> 1 \<and>
   0 \<le> rgb_g (hexToRgb h) \<and> rgb_g (hexToRgb h) \<le> 1 \<and>
   0 \<le> rgb_b (hexToRgb h) \<and> rgb_b (hexToRgb h) \<le> 1"
proof (cases "hexRegexExec (case h of None \<Rightarrow> ''#000000'' | Some x \<Rightarrow> x)")
  case None
  then show ?thesis by (simp add: hexToRgb_def)
next
  case (Some gs)
  obtain g1 g2 g3 where gs: "gs = (g1, g2, g3)" by (cases gs) auto
  from Some gs hexRegexExec_bounds
  have "parseInt16 g1 \<le> 255 \<and> parseInt16 g2 \<le> 255 \<and> parseInt16 g3 \<le> 255" by blast
  then show ?thesis using Some gs by (simp add: hexToRgb_def)
qed

lemma rgb_hexToRgb:
  "rgb (rgb_r (hexToRgb h)) (rgb_g (hexToRgb h)) (rgb_b (hexToRgb h)) =
     Some (RGB (rgb_r (hexToRgb h)) (rgb_g (hexToRgb h)) (rgb_b (hexToRgb h)))"
  using hexToRgb_range [of h] by (simp add: rgb_def)

lemma hexGroups_None_iff:
  "hexGroups s = None \<longleftrightarrow> \<not> (length s = 6 \<and> list_all (\<lambda>c. c \<in> set ''0123456789abcdefABCDEF'') s)"
  by (simp add: hexGroups_def list_all_iff isHexDigit_iff)

lemma hexGroups_hash: "hexGroups (CHR ''#'' # rest) = None"
  by (auto simp: hexGroups_def isHexDigit_def)

lemma hexRegexExec_None_iff: "hexRegexExec s = None \<longleftrightarrow> \<not> isHexColor s"
proof (cases s)
  case Nil
  then show ?thesis by (simp add: hexRegexExec_def isHexColor_def hexGroups_def)
next
  case (Cons c rest)
  show ?thesis
  proof (cases "c = CHR ''#''")
    case True
    then show ?thesis
      using hexGroups_None_iff [of rest]
      by (auto simp: Cons hexRegexExec_def isHexColor_def hexGroups_hash split: option.splits)
  next
    case False
    then show ?thesis
      using hexGroups_None_iff [of s]
      by (auto simp: Cons hexRegexExec_def isHexColor_def)
  qed
qed

text \<open>
  Claim C10.  \<open>hexToRgb\<close> returns a value for every input.  For every string \<open>hex\<close> that
  is not an optional \<open>#\<close> followed by exactly six hexadecimal digits (a three-digit
  colour, a malformed one) it returns black.  For every argument \<open>h\<close>, the default
  included, each component of the result lies between 0 and 1.  Hence the colour
  constructor \<open>rgb\<close>, which rejects components outside that range, accepts what
  \<open>hexToRgb\<close> makes of any field's \<open>fill\<close>.
\<close>

theorem hexToRgb_total:
  "(\<not> isHexColor hex \<longrightarrow> hexToRgb (Some hex) = \<lparr>rgb_r = 0, rgb_g = 0, rgb_b = 0\<rparr>) \<and>
   0 \<le> rgb_r (hexToRgb h) \<and> rgb_r (hexToRgb h) \<le> 1 \<and>
   0 \<le> rgb_g (hexToRgb h) \<and> rgb_g (hexToRgb h) \<le> 1 \<and>
   0 \<le> rgb_b (hexToRgb h) \<and> rgb_b (hexToRgb h) \<le> 1 \<and>
   rgb (rgb_r (hexToRgb (fill field))) (rgb_g (hexToRgb (fill field)))
       (rgb_b (hexToRgb (fill field))) \<noteq> None"
proof -
  have "\<not> isHexColor hex \<longrightarrow> hexToRgb (Some hex) = \<lparr>rgb_r = 0, rgb_g = 0, rgb_b = 0\<rparr>"
    using hexRegexExec_None_iff [of hex] by (auto simp: hexToRgb_def)
  then show ?thesis
    using hexToRgb_range [of h] rgb_hexToRgb [of "fill field"] by simp
qed

theorem hexToRgb_total_witness:
  "\<not> isHexColor ''#fff'' \<and>
   hexToRgb (Some ''#fff'') = \<lparr>rgb_r = 0, rgb_g = 0, rgb_b = 0\<rparr> \<and>
   hexToRgb (Some ''#FF0033'') = \<lparr>rgb_r = 1, rgb_g = 0, rgb_b = 1 / 5\<rparr> \<and>
   rgb_b (hexToRgb (Some ''#FF0033'')) \<le> 1"
  using hexToRgb_total [of "''#fff''" "Some ''#FF0033''"]
  by (simp add: isHexColor_def hexToRgb_def hexRegexExec_def hexGroups_def isHexDigit_def
        parseInt16_def hexDigitVal_def)

section \<open>The names of the archive's files\<close>

lemma digitChar_val: "d < 10 \<Longrightarrow> (of_char (digitChar d) :: nat) = 48 + d"
proof -
  assume "d < 10"
  then have "d \<in> {0, 1, 2, 3, 4, 5, 6, 7, 8, 9}"
    unfolding insert_iff empty_iff by presburger
  then show ?thesis
    by (elim insertE emptyE) (simp_all add: digitChar_def)
qed


lemma decimalValue_snoc: "decimalValue (s @ [c]) = 10 * decimalValue s + (of_char c - 48)"
  by (simp add: decimalValue_def)

lemma decimalValue_natToString: "decimalValue (natToString n) = n"
proof (induction n rule: natToString.induct)
  case (1 n)
  show ?case
  proof (cases "n < 10")
    case True
    then show ?thesis
      by (simp add: natToString.simps [of n] decimalValue_def digitChar_val)
  next
    case False
    then have "decimalValue (natToString (n div 10)) = n div 10" using 1 by simp
    moreover have "(of_char (digitChar (n mod 10)) :: nat) - 48 = n mod 10"
      by (simp add: digitChar_val)
    ultimately show ?thesis
      using False by (simp add: natToString.simps [of n] decimalValue_snoc)
  qed
qed

lemma decimalValue_zeros: "decimalValue (replicate k CHR ''0'' @ s) = decimalValue s"
  by (induction k) (simp_all add: decimalValue_def)


lemma decimalValue_padStart: "decimalValue (padStart n CHR ''0'' s) = decimalValue s"
  unfolding padStart_def by (rule decimalValue_zeros)

lemma padded_inj:
  assumes "padStart 3 CHR ''0'' (natToString a) = padStart 3 CHR ''0'' (natToString b)"
  shows "a = b"
proof -
  have "decimalValue (padStart 3 CHR ''0'' (natToString a)) = a"
    by (simp only: decimalValue_padStart decimalValue_natToString)
  moreover have "decimalValue (padStart 3 CHR ''0'' (natToString b)) = b"
    by (simp only: decimalValue_padStart decimalValue_natToString)
  ultimately show ?thesis using assms by metis
qed

lemma fileNameOf_inj: 
  assumes "fileNameOf base i = fileNameOf base j" shows "i = j"
proof -
  from assms have "padStart 3 CHR ''0'' (natToString (i + 1)) = padStart 3 CHR ''0'' (natToString (j + 1))"
    unfolding fileNameOf_def by (simp only: same_append_eq append_same_eq)
  then have "i + 1 = j + 1" by (rule padded_inj)
  then show ?thesis by simp
qed
lemma update_fresh: "k \<notin> fst ` set al \<Longrightarrow> AList.update k v al = al @ [(k, v)]"
  by (induction al) auto

lemma zipFiles_fold:
  assumes "\<And>name. name \<in> fst ` set acc \<Longrightarrow> \<exists>j<k. name = fileNameOf base j"
  shows "fold (\<lambda>(index, pdfBytes) zip. AList.update (fileNameOf base index) pdfBytes zip)
           (enumerate k bufs) acc =
         acc @ map (\<lambda>(index, pdfBytes). (fileNameOf base index, pdfBytes)) (enumerate k bufs)"
  using assms
proof (induction bufs arbitrary: k acc)
  case Nil
  then show ?case by simp
next
  case (Cons buf bufs)
  have fresh: "fileNameOf base k \<notin> fst ` set acc"
  proof
    assume "fileNameOf base k \<in> fst ` set acc"
    then obtain j where "j < k" "fileNameOf base k = fileNameOf base j"
      using Cons.prems by blast
    then show False using fileNameOf_inj by blast
  qed
  have step: "\<And>name. name \<in> fst ` set (acc @ [(fileNameOf base k, buf)])
                \<Longrightarrow> \<exists>j<Suc k. name = fileNameOf base j"
  proof -
    fix name assume "name \<in> fst ` set (acc @ [(fileNameOf base k, buf)])"
    then consider "name \<in> fst ` set acc" | "name = fileNameOf base k" by auto
    then show "\<exists>j<Suc k. name = fileNameOf base j"
    proof cases
      case 1
      then obtain j where "j < k" "name = fileNameOf base j" using Cons.prems by blast
      then show ?thesis using less_Suc_eq by blast
    next
      case 2
      then show ?thesis by blast
    qed
  qed
  have "fold (\<lambda>(index, pdfBytes) zip. AList.update (fileNameOf base index) pdfBytes zip)
          (enumerate k (buf # bufs)) acc =
        fold (\<lambda>(index, pdfBytes) zip. AList.update (fileNameOf base index) pdfBytes zip)
          (enumerate (Suc k) bufs) (acc @ [(fileNameOf base k, buf)])"
    by (simp add: update_fresh [OF fresh])
  also have "\<dots> = (acc @ [(fileNameOf base k, buf)]) @
        map (\<lambda>(index, pdfBytes). (fileNameOf base index, pdfBytes)) (enumerate (Suc k) bufs)"
    by (rule Cons.IH [OF step])
  finally show ?case by simp
qed

lemma zipFiles_eq:
  "zipFiles bufs base = map (\<lambda>(index, pdfBytes). (fileNameOf base index, pdfBytes)) (enumerate 0 bufs)"
  unfolding zipFiles_def by (subst zipFiles_fold) simp_all

lemma zipFiles_nth:
  "zipFiles bufs base = map (\<lambda>i. (fileNameOf base i, bufs ! i)) [0..<length bufs]"
  unfolding zipFiles_eq by (rule nth_equalityI) (simp_all add: nth_enumerate_eq)

text \<open>
  Claim C6.  For every list of buffers and every base name, the files \<open>createZipArchive\<close>
  hands to the archiver are, in order, the buffers themselves, the \<open>i\<close>-th (from 0)
  under the name made of the base name, an underscore, \<open>i + 1\<close> in decimal padded with
  zeros to at least three digits, and \<open>.pdf\<close>.  The number counts the buffers of the
  list, not the rows of the batch: three buffers with base name \<open>Doc\<close> are named
  \<open>Doc_001.pdf\<close>, \<open>Doc_002.pdf\<close>, \<open>Doc_003.pdf\<close>, whichever rows they came from.
\<close>

theorem createZipArchive_dense_names:
  "zipFiles pdfBuffers baseFileName =
     map (\<lambda>i. (baseFileName @ ''_'' @ padStart 3 CHR ''0'' (natToString (i + 1)) @ ''.pdf'',
               pdfBuffers ! i))
       [0..<length pdfBuffers] \<and>
   createZipArchive ext pdfBuffers baseFileName =
     (case generateAsync ext (zipFiles pdfBuffers baseFileName) of
        None \<Rightarrow> Inl ZipError | Some blob \<Rightarrow> Inr blob) \<and>
   decimalValue (padStart 3 CHR ''0'' (natToString (i + 1))) = i + 1 \<and>
   3 \<le> length (padStart 3 CHR ''0'' (natToString (i + 1))) \<and>
   (length pdfBuffers = 3 \<longrightarrow>
      map fst (zipFiles pdfBuffers ''Doc'') = [''Doc_001.pdf'', ''Doc_002.pdf'', ''Doc_003.pdf''])"
proof -
  have three: "[0..<3] = [0, 1, 2]" by (simp add: upt_rec)
  have ex: "length pdfBuffers = 3 \<longrightarrow>
      map fst (zipFiles pdfBuffers ''Doc'') = [''Doc_001.pdf'', ''Doc_002.pdf'', ''Doc_003.pdf'']"
    by (simp add: zipFiles_nth three fileNameOf_def padStart_def natToString.simps digitChar_def
          numeral_2_eq_2)
  have len: "3 \<le> length (padStart 3 CHR ''0'' (natToString (i + 1)))"
    by (simp add: padStart_def)
  have dec: "decimalValue (padStart 3 CHR ''0'' (natToString (i + 1))) = i + 1"
    by (simp only: decimalValue_padStart decimalValue_natToString)
  have files: "zipFiles pdfBuffers baseFileName =
     map (\<lambda>i. (baseFileName @ ''_'' @ padStart 3 CHR ''0'' (natToString (i + 1)) @ ''.pdf'',
               pdfBuffers ! i))
       [0..<length pdfBuffers]"
    by (simp only: zipFiles_nth fileNameOf_def)
  show ?thesis
    using files ex len dec by (simp only: createZipArchive_def simp_thms)
qed

theorem createZipArchive_dense_names_witness:
  "length [[1], [2], [4 :: 8 word]] = 3 \<and>
   map fst (zipFiles [[1], [2], [4]] ''Doc'') = [''Doc_001.pdf'', ''Doc_002.pdf'', ''Doc_003.pdf''] \<and>
   map snd (zipFiles [[1], [2], [4]] ''Doc'') = [[1], [2], [4]]"
proof -
  have len: "length [[1], [2], [4 :: 8 word]] = 3" by simp
  have three: "[0..<3] = [0, 1, 2]" by (simp add: upt_rec)
  from createZipArchive_dense_names [of "[[1], [2], [4]]" "''Doc''"] len
  have names: "map fst (zipFiles [[1], [2], [4]] ''Doc'') =
      [''Doc_001.pdf'', ''Doc_002.pdf'', ''Doc_003.pdf'']"
    by blast
  have "map snd (zipFiles [[1], [2], [4]] ''Doc'') = [[1], [2], [4]]"
    by (simp add: zipFiles_nth three)
  with len names show ?thesis by blast
qed

section \<open>The synthesis loop\<close>

lemma rowLoop_successes:
  "fst (rowLoop ext tb fl ps i rws pdfs cache) = pdfs @ successes (rowOutcomes ext tb fl ps i rws cache)"
proof (induction rws arbitrary: i pdfs cache)
  case Nil
  then show ?case by simp
next
  case (Cons row rest)
  obtain res cache' where pr: "processRow ext tb fl ps i row cache = (res, cache')"
    by (cases "processRow ext tb fl ps i row cache") auto
  show ?case by (cases res) (simp_all add: pr Cons.IH)
qed

lemma length_rowOutcomes: "length (rowOutcomes ext tb fl ps i rws cache) = length rws"
  by (induction rws arbitrary: i cache) simp_all

lemma loadFont_keeps:
  assumes "loadFont ext i field fontName st = (res, st')"
  shows "content (pdfDoc st') = content (pdfDoc st) \<and> pages (pdfDoc st') = pages (pdfDoc st)"
  using assms
  by (auto simp: loadFont_def split: option.splits prod.splits sum.splits)

lemma drawField_result:
  "drawField ext i field p h sf val font st =
     (let size = num_or (fontSize field) 12 * opt_num_or (scaleX field) 1 * sf;
          options = \<lparr>opt_x = field_x field * sf,
                     opt_y = h - field_y field * sf - heightAtSize ext font size * 0.8,
                     opt_font = font, opt_size = size,
                     opt_color = RGB (rgb_r (hexToRgb (fill field))) (rgb_g (hexToRgb (fill field)))
                                     (rgb_b (hexToRgb (fill field))),
                     opt_rotate = - opt_num_or (angle field) 0\<rparr>
      in if drawTextThrows ext i (field_id field) val options then Inl DrawTextError
         else Inr (st\<lparr>pdfDoc := (pdfDoc st)\<lparr>content := content (pdfDoc st) @ [(p, DrawText val options)]\<rparr>\<rparr>))"
  by (simp add: drawField_def Let_def rgb_hexToRgb)

lemma processField_page_skip:
  "pageIndex field < 1 \<or> int (length (pages (pdfDoc st))) < pageIndex field
     \<Longrightarrow> processField ext i row ps field st = st"
  by (auto simp: processField_def Let_def)

lemma processField_preview_skip:
  "ps (pageIndex field) = None \<Longrightarrow> processField ext i row ps field st = st"
  by (simp add: processField_def Let_def)

lemma columnValue_own:
  assumes "getProp row k \<noteq> JUndefined"
  shows "columnValue ext row k = toString (numToString ext) (js_or (getProp row k) (JStr []))"
  using assms by (auto simp: columnValue_def getProp_def split: option.splits)

lemma columnValue_nonempty:
  assumes "toString (numToString ext) (js_or (getProp row k) (JStr [])) \<noteq> []"
  shows "columnValue ext row k = toString (numToString ext) (js_or (getProp row k) (JStr []))"
proof (rule columnValue_own)
  show "getProp row k \<noteq> JUndefined"
  proof
    assume "getProp row k = JUndefined"
    with assms show False by (simp add: js_or_def)
  qed
qed

lemma processField_value_skip:
  assumes "columnValue ext row (columnName field) = val"
    and "val = [] \<or> val = ''undefined''"
  shows "processField ext i row ps field st = st"
  using assms by (auto simp: processField_def Let_def split: option.splits)

lemma processField_draw:
  assumes "1 \<le> pageIndex field" "pageIndex field \<le> int (length (pages (pdfDoc st)))"
    and "ps (pageIndex field) = Some previewSize"
    and "columnValue ext row (columnName field) = val"
    and "val \<noteq> []" "val \<noteq> ''undefined''"
  shows "processField ext i row ps field st =
     (case loadFont ext i field (str_or (fontFamily field) ''Inter'') st of
        (Inl e, st') \<Rightarrow> st'
      | (Inr customFont, st') \<Rightarrow>
          (case drawField ext i field (nat (pageIndex field - 1))
                  (height (pages (pdfDoc st) ! nat (pageIndex field - 1)))
                  (width (pages (pdfDoc st) ! nat (pageIndex field - 1)) / width previewSize)
                  val customFont st' of
             Inl e \<Rightarrow> st'
           | Inr st'' \<Rightarrow> st''))"
  using assms by (simp add: processField_def Let_def)



lemma drawField_Inr:
  assumes "drawField ext i field p h sf val font st = Inr st''"
  shows "\<exists>options. \<not> drawTextThrows ext i (field_id field) val options \<and>
           st'' = st\<lparr>pdfDoc := (pdfDoc st)\<lparr>content := content (pdfDoc st) @ [(p, DrawText val options)]\<rparr>\<rparr>"
proof -
  let ?size = "num_or (fontSize field) 12 * opt_num_or (scaleX field) 1 * sf"
  let ?options = "\<lparr>opt_x = field_x field * sf,
                     opt_y = h - field_y field * sf - heightAtSize ext font ?size * 0.8,
                     opt_font = font, opt_size = ?size,
                     opt_color = RGB (rgb_r (hexToRgb (fill field))) (rgb_g (hexToRgb (fill field)))
                                     (rgb_b (hexToRgb (fill field))),
                     opt_rotate = - opt_num_or (angle field) 0\<rparr>"
  have eq: "drawField ext i field p h sf val font st =
      (if drawTextThrows ext i (field_id field) val ?options then Inl DrawTextError
       else Inr (st\<lparr>pdfDoc := (pdfDoc st)\<lparr>content := content (pdfDoc st) @ [(p, DrawText val ?options)]\<rparr>\<rparr>))"
    by (simp only: drawField_result Let_def)
  show ?thesis
  proof (cases "drawTextThrows ext i (field_id field) val ?options")
    case True
    with eq assms show ?thesis by simp
  next
    case False
    with eq assms have "st'' = st\<lparr>pdfDoc := (pdfDoc st)\<lparr>content := content (pdfDoc st) @ [(p, DrawText val ?options)]\<rparr>\<rparr>"
      by simp
    with False show ?thesis by blast
  qed
qed


lemma processField_cases:
  obtains
    (skipped) "processField ext i row ps field st = st"
  | (fontError) e st' where
      "loadFont ext i field (str_or (fontFamily field) ''Inter'') st = (Inl e, st')"
      "processField ext i row ps field st = st'"
  | (drawError) font st' where
      "loadFont ext i field (str_or (fontFamily field) ''Inter'') st = (Inr font, st')"
      "processField ext i row ps field st = st'"
  | (drawn) font st' p val options where
      "loadFont ext i field (str_or (fontFamily field) ''Inter'') st = (Inr font, st')"
      "\<not> drawTextThrows ext i (field_id field) val options"
      "processField ext i row ps field st =
         st'\<lparr>pdfDoc := (pdfDoc st')\<lparr>content := content (pdfDoc st') @ [(p, DrawText val options)]\<rparr>\<rparr>"
proof -
  define val where "val = columnValue ext row (columnName field)"
  show ?thesis
  proof (cases "pageIndex field < 1 \<or> int (length (pages (pdfDoc st))) < pageIndex field")
    case True
    then have "processField ext i row ps field st = st" by (rule processField_page_skip)
    then show ?thesis by (rule skipped)
  next
    case inRange: False
    show ?thesis
    proof (cases "ps (pageIndex field)")
      case None
      then have "processField ext i row ps field st = st" by (rule processField_preview_skip)
      then show ?thesis by (rule skipped)
    next
      case (Some previewSize)
      show ?thesis
      proof (cases "val = [] \<or> val = ''undefined''")
        case True
        with val_def have "processField ext i row ps field st = st"
          using processField_value_skip [of ext row field val i ps st] by blast
        then show ?thesis by (rule skipped)
      next
        case False
        from inRange have r: "1 \<le> pageIndex field" "pageIndex field \<le> int (length (pages (pdfDoc st)))"
          by linarith+
        from False have v: "val \<noteq> []" "val \<noteq> ''undefined''" by blast+
        note eq = processField_draw [where ps = ps and field = field and st = st and i = i and ext = ext
            and row = row and val = val, OF r Some val_def [symmetric] v]
        obtain res st' where lf: "loadFont ext i field (str_or (fontFamily field) ''Inter'') st = (res, st')"
          by (cases "loadFont ext i field (str_or (fontFamily field) ''Inter'') st") blast
        show ?thesis
        proof (cases res)
          case (Inl e)
          with eq lf have "processField ext i row ps field st = st'" by simp
          with lf Inl show ?thesis using fontError by blast
        next
          case (Inr font)
          show ?thesis
          proof (cases "drawField ext i field (nat (pageIndex field - 1))
                      (height (pages (pdfDoc st) ! nat (pageIndex field - 1)))
                      (width (pages (pdfDoc st) ! nat (pageIndex field - 1)) / width previewSize)
                      val font st'")
            case (Inl e)
            with eq lf Inr have "processField ext i row ps field st = st'" by simp
            with lf Inr show ?thesis using drawError by blast
          next
            case draw: (Inr st'')
            with eq lf Inr have pf: "processField ext i row ps field st = st''" by simp
            from drawField_Inr [OF draw] obtain options where
              "\<not> drawTextThrows ext i (field_id field) val options"
              "st'' = st'\<lparr>pdfDoc := (pdfDoc st')\<lparr>content := content (pdfDoc st') @
                        [(nat (pageIndex field - 1), DrawText val options)]\<rparr>\<rparr>"
              by blast
            with pf lf Inr show ?thesis using drawn by blast
          qed
        qed
      qed
    qed
  qed
qed

lemma processField_pages:
  "pages (pdfDoc (processField ext i row ps field st)) = pages (pdfDoc st)"
  by (cases rule: processField_cases [of ext i row ps field st])
     (auto dest: loadFont_keeps)

lemma processField_content:
  "content (pdfDoc (processField ext i row ps field st)) = content (pdfDoc st) \<or>
   (\<exists>p val options.
      content (pdfDoc (processField ext i row ps field st)) =
        content (pdfDoc st) @ [(p, DrawText val options)] \<and>
      \<not> drawTextThrows ext i (field_id field) val options)"
proof (cases rule: processField_cases [of ext i row ps field st])
  case skipped
  then show ?thesis by simp
next
  case (fontError e st')
  then show ?thesis using loadFont_keeps by fastforce
next
  case (drawError font st')
  then show ?thesis using loadFont_keeps by fastforce
next
  case (drawn font st' p val options)
  from drawn(1) have "content (pdfDoc st') = content (pdfDoc st)"
    by (simp add: loadFont_keeps)
  with drawn(2,3) show ?thesis by auto
qed

lemma fieldLoop_append:
  "fieldLoop ext i row ps (xs @ ys) st = fieldLoop ext i row ps ys (fieldLoop ext i row ps xs st)"
  by (induction xs arbitrary: st) simp_all

section \<open>Evaluating the worked example\<close>

lemma demo_color: "hexToRgb (Some ''#FF0033'') = \<lparr>rgb_r = 1, rgb_g = 0, rgb_b = 1 / 5\<rparr>"
  by (simp add: hexToRgb_def hexRegexExec_def hexGroups_def isHexDigit_def
        parseInt16_def hexDigitVal_def)

lemma demo_loadFont:
  "loadFont demoExt i (demoField\<lparr>field_id := fid\<rparr>) ''Roboto'' demoState =
     (if fid = ''f-font'' then (Inl CriticalFontError, demoState)
      else (Inr (PDFFont [7]),
            \<lparr>pdfDoc = demoTemplate\<lparr>fonts := [PDFFont [7]]\<rparr>,
             loadedFonts = [''Roboto'' \<mapsto> PDFFont [7]],
             fontCache = [''Roboto'' \<mapsto> [7]]\<rparr>))"
  by (simp add: loadFont_def demoState_def demoExt_def demoTemplate_def demoField_def
        getFontBytes.simps [of _ "''Roboto''"] getFontBytes.simps [of _ "''Inter''"])

lemmas demo_simps =
  processField_def processRow_def loadFont_def drawField_result Let_def
  demoField_def demoState_def demoTemplate_def demoPreviewSizes_def demoRow_def demoExt_def
  columnValue_def getProp_def js_or_def str_or_def num_or_def opt_num_or_def demo_color
  fontPathOf_def fontPaths_def
  getFontBytes.simps [of _ "''Roboto''"] getFontBytes.simps [of _ "''Inter''"]

lemma demo_row_first:
  "processRow demoExt tb [demoField] demoPreviewSizes i demoRow Map.empty =
     (if i = 2 then Inl SaveError else Inr [of_nat i, 1], [''Roboto'' \<mapsto> [7]])"
  by (simp add: demo_simps)

lemma demo_row_next:
  "processRow demoExt tb [demoField] demoPreviewSizes i demoRow [''Roboto'' \<mapsto> [7]] =
     (if i = 2 then Inl SaveError else Inr [of_nat i, 1], [''Roboto'' \<mapsto> [7]])"
  by (simp add: demo_simps)

lemma processRow_failure:
  assumes "fst (processRow ext tb fl ps i row cache) = Inl e"
  shows "(load ext i tb = None \<and> e = LoadError) \<or> (\<exists>doc. save ext i doc = None \<and> e = SaveError)"
  using assms
  by (auto simp: processRow_def Let_def split: option.splits)

section \<open>What generatePDFs does with a field\<close>

text \<open>
  Claim C1.  The claim is that a field whose \<open>isQRCode\<close> flag is set has its value
  rendered as a code image and placed with the field's width and height.  The code
  does otherwise, and this is what is proved: \<open>generatePDFs\<close> never reads the flag, so a
  field is processed the same whether the flag is set or not; whatever a field adds
  to the document is a \<open>drawText\<close> call, never an image; and in the worked example the
  field flagged as a code and bound to the cell \<open>X1\<close> ends as the text \<open>X1\<close> drawn at the
  text baseline.
\<close>

theorem qr_flag_is_ignored:
  "processField ext rowIndex row previewSizes (field\<lparr>isQRCode := True\<rparr>) st =
     processField ext rowIndex row previewSizes (field\<lparr>isQRCode := False\<rparr>) st \<and>
   (content (pdfDoc (processField ext rowIndex row previewSizes field st)) = content (pdfDoc st) \<or>
    (\<exists>p val options.
       content (pdfDoc (processField ext rowIndex row previewSizes field st)) =
         content (pdfDoc st) @ [(p, DrawText val options)])) \<and>
   isQRCode (demoField\<lparr>field_id := ''f-code'', columnName := ''code'', isQRCode := True\<rparr>) \<and>
   getProp demoRow ''code'' = JStr ''X1'' \<and>
   content (pdfDoc (processField demoExt 0 demoRow demoPreviewSizes
      (demoField\<lparr>field_id := ''f-code'', columnName := ''code'', isQRCode := True\<rparr>) demoState)) =
     [(0, DrawText ''X1''
            \<lparr>opt_x = 200, opt_y = 660, opt_font = PDFFont [7], opt_size = 40,
             opt_color = RGB 1 0 (1 / 5), opt_rotate = - 30\<rparr>)]"
proof -
  have lf: "loadFont ext rowIndex (field\<lparr>isQRCode := q\<rparr>) fontName s =
      loadFont ext rowIndex field fontName s" for q fontName s
    by (simp add: loadFont_def cong: option.case_cong prod.case_cong sum.case_cong)
  have df: "drawField ext rowIndex (field\<lparr>isQRCode := q\<rparr>) p h sf val font s =
      drawField ext rowIndex field p h sf val font s" for q p h sf val font s
    by (simp add: drawField_result)
  have pf: "processField ext rowIndex row previewSizes (field\<lparr>isQRCode := q\<rparr>) st =
     processField ext rowIndex row previewSizes field st" for q
    by (simp add: processField_def Let_def lf df split_def
          cong: if_cong option.case_cong sum.case_cong)
  have flag: "processField ext rowIndex row previewSizes (field\<lparr>isQRCode := True\<rparr>) st =
     processField ext rowIndex row previewSizes (field\<lparr>isQRCode := False\<rparr>) st"
    by (simp only: pf)
  have shape: "content (pdfDoc (processField ext rowIndex row previewSizes field st)) = content (pdfDoc st) \<or>
    (\<exists>p val options.
       content (pdfDoc (processField ext rowIndex row previewSizes field st)) =
         content (pdfDoc st) @ [(p, DrawText val options)])"
    using processField_content [of ext rowIndex row previewSizes field st] by blast
  have ex: "content (pdfDoc (processField demoExt 0 demoRow demoPreviewSizes
      (demoField\<lparr>field_id := ''f-code'', columnName := ''code'', isQRCode := True\<rparr>) demoState)) =
     [(0, DrawText ''X1''
            \<lparr>opt_x = 200, opt_y = 660, opt_font = PDFFont [7], opt_size = 40,
             opt_color = RGB 1 0 (1 / 5), opt_rotate = - 30\<rparr>)]"
    by (simp add: demo_simps)
  have q: "isQRCode (demoField\<lparr>field_id := ''f-code'', columnName := ''code'', isQRCode := True\<rparr>)"
    by simp
  have v: "getProp demoRow ''code'' = JStr ''X1''" by (simp add: getProp_def demoRow_def)
  from flag shape ex q v show ?thesis by blast
qed

text \<open>
  Claim C2.  For a field that reaches the drawing step (its page exists, the page has a
  preview size of positive width, its value is neither empty nor \<open>undefined\<close>, its font
  was obtained), the one call \<open>generatePDFs\<close> attempts is \<open>drawText\<close> on the field's page
  with \<open>scaleFactor = nativeWidth / previewWidth\<close>, \<open>x = field.x * scaleFactor\<close>,
  \<open>size = fontSize * scaleX * scaleFactor\<close> where a zero font size counts as 12 and an
  absent or zero \<open>scaleX\<close> as 1, \<open>y = nativeHeight - field.y * scaleFactor -
  heightAtSize(size) * 0.8\<close>, and the rotation the negative of the field's angle (0 when
  absent).  The call is recorded unless \<open>drawText\<close> itself throws.  Numbers are reals
  here, so the quotient is the exact one wherever the preview width is positive.
\<close>

theorem generatePDFs_coordinate_transform:
  assumes "1 \<le> pageIndex field" and "pageIndex field \<le> int (length (pages (pdfDoc st)))"
    and "previewSizes (pageIndex field) = Some previewSize" and "0 < width previewSize"
    and "toString (numToString ext) (js_or (getProp row (columnName field)) (JStr [])) = val"
    and "val \<noteq> []" and "val \<noteq> ''undefined''"
    and "loadFont ext rowIndex field (str_or (fontFamily field) ''Inter'') st = (Inr customFont, st')"
  shows "let nativePage = pages (pdfDoc st) ! nat (pageIndex field - 1);
             scaleFactor = width nativePage / width previewSize;
             nativeX = field_x field * scaleFactor;
             nativeFontSize =
               (if fontSize field = 0 then 12 else fontSize field) *
               (case scaleX field of None \<Rightarrow> 1 | Some s \<Rightarrow> if s = 0 then 1 else s) *
               scaleFactor;
             nativeY = height nativePage - field_y field * scaleFactor -
                       heightAtSize ext customFont nativeFontSize * 0.8;
             rotation = - (case angle field of None \<Rightarrow> 0 | Some a \<Rightarrow> a);
             color = hexToRgb (fill field);
             options = \<lparr>opt_x = nativeX, opt_y = nativeY, opt_font = customFont,
                        opt_size = nativeFontSize,
                        opt_color = RGB (rgb_r color) (rgb_g color) (rgb_b color),
                        opt_rotate = rotation\<rparr>
         in content (pdfDoc (processField ext rowIndex row previewSizes field st)) =
              content (pdfDoc st) @
              (if drawTextThrows ext rowIndex (field_id field) val options then []
               else [(nat (pageIndex field - 1), DrawText val options)])"
proof -
  have keep: "content (pdfDoc st') = content (pdfDoc st)"
    using assms(8) by (simp add: loadFont_keeps)
  have sx: "opt_num_or (scaleX field) 1 = (case scaleX field of None \<Rightarrow> 1 | Some s \<Rightarrow> if s = 0 then 1 else s)"
    by (simp add: opt_num_or_def num_or_def split: option.splits)
  have fs: "num_or (fontSize field) 12 = (if fontSize field = 0 then 12 else fontSize field)"
    by (simp add: num_or_def)
  have an: "opt_num_or (angle field) 0 = (case angle field of None \<Rightarrow> 0 | Some a \<Rightarrow> a)"
    by (simp add: opt_num_or_def num_or_def split: option.splits)
  have cv: "columnValue ext row (columnName field) = val"
    using columnValue_nonempty [of ext row "columnName field"] assms(5,6) by simp
  note eq = processField_draw [where ps = previewSizes and field = field and st = st
      and i = rowIndex and ext = ext and row = row and val = val, OF assms(1,2,3) cv assms(6,7)]
  show ?thesis
    unfolding eq assms(8) drawField_result Let_def sx fs an
    by (simp add: keep)
qed

theorem generatePDFs_coordinate_transform_witness:
  "1 \<le> pageIndex demoField \<and>
   pageIndex demoField \<le> int (length (pages (pdfDoc demoState))) \<and>
   demoPreviewSizes (pageIndex demoField) = Some \<lparr>width = 306, height = 396\<rparr> \<and>
   (0::real) < width \<lparr>width = 306, height = 396\<rparr> \<and>
   toString (numToString demoExt) (js_or (getProp demoRow (columnName demoField)) (JStr [])) = ''Ada'' \<and>
   fst (loadFont demoExt 0 demoField (str_or (fontFamily demoField) ''Inter'') demoState) =
     Inr (PDFFont [7]) \<and>
   content (pdfDoc (processField demoExt 0 demoRow demoPreviewSizes demoField demoState)) =
     [(0, DrawText ''Ada''
            \<lparr>opt_x = 200, opt_y = 660, opt_font = PDFFont [7], opt_size = 40,
             opt_color = RGB 1 0 (1 / 5), opt_rotate = - 30\<rparr>)]"
proof -
  have f: "demoField\<lparr>field_id := ''f-name''\<rparr> = demoField" by (simp add: demoField_def)
  have lf: "loadFont demoExt 0 demoField (str_or (fontFamily demoField) ''Inter'') demoState =
     (Inr (PDFFont [7]),
      \<lparr>pdfDoc = demoTemplate\<lparr>fonts := [PDFFont [7]]\<rparr>,
       loadedFonts = [''Roboto'' \<mapsto> PDFFont [7]],
       fontCache = [''Roboto'' \<mapsto> [7]]\<rparr>)"
    using demo_loadFont [of 0 "''f-name''"] unfolding f
    by (simp add: str_or_def demoField_def)
  have h1: "1 \<le> pageIndex demoField" by (simp add: demoField_def)
  have h2: "pageIndex demoField \<le> int (length (pages (pdfDoc demoState)))"
    by (simp add: demoField_def demoState_def demoTemplate_def)
  have h3: "demoPreviewSizes (pageIndex demoField) = Some \<lparr>width = 306, height = 396\<rparr>"
    by (simp add: demoField_def demoPreviewSizes_def)
  have h4: "(0::real) < width \<lparr>width = 306, height = 396\<rparr>" by simp
  have h5: "toString (numToString demoExt) (js_or (getProp demoRow (columnName demoField)) (JStr [])) = ''Ada''"
    by (simp add: demoField_def demoRow_def getProp_def js_or_def)
  have h6: "''Ada'' \<noteq> []" "''Ada'' \<noteq> ''undefined''" by simp_all
  note t = generatePDFs_coordinate_transform [where previewSizes = demoPreviewSizes
      and field = demoField and st = demoState and ext = demoExt and row = demoRow
      and rowIndex = 0, OF h1 h2 h3 h4 h5 h6 lf]
  have "content (pdfDoc (processField demoExt 0 demoRow demoPreviewSizes demoField demoState)) =
     [(0, DrawText ''Ada''
            \<lparr>opt_x = 200, opt_y = 660, opt_font = PDFFont [7], opt_size = 40,
             opt_color = RGB 1 0 (1 / 5), opt_rotate = - 30\<rparr>)]"
    using t
    by (simp add: Let_def demoField_def demoState_def demoTemplate_def demoExt_def demo_color)
  with h1 h2 h3 h4 h5 lf show ?thesis by simp
qed

text \<open>
  Claim C4.  When the row's value for the column a field is bound to is the empty
  string or the string \<open>undefined\<close>, processing the field changes nothing: no font is
  loaded, nothing is drawn, no error arises.  The loop over the fields, and with it
  the whole row, gives exactly what it gives for the field list without that field,
  so every other field is processed as if the skipped one were not there.
\<close>

theorem empty_value_skips_field:
  assumes "getProp row (columnName field) = JStr v" and "v = [] \<or> v = ''undefined''"
  shows "processField ext rowIndex row previewSizes field st = st \<and>
         fieldLoop ext rowIndex row previewSizes (before @ field # after) st =
           fieldLoop ext rowIndex row previewSizes (before @ after) st \<and>
         processRow ext templateBytes (before @ field # after) previewSizes rowIndex row cache =
           processRow ext templateBytes (before @ after) previewSizes rowIndex row cache"
proof -
  have own: "getProp row (columnName field) \<noteq> JUndefined"
    using assms(1) by simp
  have val: "columnValue ext row (columnName field) = v"
    unfolding columnValue_own [OF own] using assms by (auto simp: js_or_def)
  have skip: "processField ext rowIndex row previewSizes field s = s" for s
    using val assms(2) by (rule processField_value_skip)
  have loop: "fieldLoop ext rowIndex row previewSizes (before @ field # after) s =
           fieldLoop ext rowIndex row previewSizes (before @ after) s" for s
    by (simp add: fieldLoop_append skip)
  have whole: "processRow ext templateBytes (before @ field # after) previewSizes rowIndex row cache =
           processRow ext templateBytes (before @ after) previewSizes rowIndex row cache"
    unfolding processRow_def loop by (rule refl)
  show ?thesis
    using skip loop whole by blast
qed

theorem empty_value_skips_field_witness:
  "getProp demoRow (columnName (demoField\<lparr>field_id := ''f-note'', columnName := ''note''\<rparr>)) =
     JStr ''undefined'' \<and>
   processField demoExt 0 demoRow demoPreviewSizes
     (demoField\<lparr>field_id := ''f-note'', columnName := ''note''\<rparr>) demoState = demoState \<and>
   processRow demoExt [] [demoField\<lparr>field_id := ''f-note'', columnName := ''note''\<rparr>, demoField]
     demoPreviewSizes 0 demoRow Map.empty =
     (Inr [0, 1], [''Roboto'' \<mapsto> [7]])"
proof -
  have h: "getProp demoRow (columnName (demoField\<lparr>field_id := ''f-note'', columnName := ''note''\<rparr>)) =
     JStr ''undefined''"
    by (simp add: getProp_def demoRow_def)
  have u: "''undefined'' = [] \<or> ''undefined'' = ''undefined''" by simp
  note t = empty_value_skips_field [where row = demoRow
      and field = "demoField\<lparr>field_id := ''f-note'', columnName := ''note''\<rparr>"
      and ext = demoExt and rowIndex = 0 and previewSizes = demoPreviewSizes and st = demoState
      and before = "[]" and after = "[demoField]" and templateBytes = "[]" and cache = Map.empty,
      OF h u]
  from t have "processRow demoExt [] [demoField\<lparr>field_id := ''f-note'', columnName := ''note''\<rparr>, demoField]
     demoPreviewSizes 0 demoRow Map.empty =
     processRow demoExt [] [demoField] demoPreviewSizes 0 demoRow Map.empty"
    by simp
  then have "processRow demoExt [] [demoField\<lparr>field_id := ''f-note'', columnName := ''note''\<rparr>, demoField]
     demoPreviewSizes 0 demoRow Map.empty = (Inr [0, 1], [''Roboto'' \<mapsto> [7]])"
    by (simp add: demo_row_first)
  with h t show ?thesis by blast
qed

text \<open>
  Claim C5.  Each per-field error leaves the field out and nothing else.  A page number
  outside \<open>1..pageCount\<close> or a missing preview size leaves the state as it is.  A font
  that cannot be loaded or embedded leaves the document's drawn content as it is.  When
  the field has reached the drawing step and \<open>drawText\<close> throws on the value and the
  options it is called with, the state is the one the font step left and nothing is
  drawn.  In every case the loop goes on with the fields that follow, from the state
  the field left.  No field can make the row fail: once the template has opened, the
  row produces a buffer whenever saving does not throw.
\<close>

theorem per_field_errors_skip_only_the_field:
  "(pageIndex field < 1 \<or> int (length (pages (pdfDoc st))) < pageIndex field \<longrightarrow>
      processField ext rowIndex row previewSizes field st = st) \<and>
   (previewSizes (pageIndex field) = None \<longrightarrow>
      processField ext rowIndex row previewSizes field st = st) \<and>
   ((\<exists>e. fst (loadFont ext rowIndex field (str_or (fontFamily field) ''Inter'') st) = Inl e) \<longrightarrow>
      content (pdfDoc (processField ext rowIndex row previewSizes field st)) = content (pdfDoc st)) \<and>
   (1 \<le> pageIndex field \<and> pageIndex field \<le> int (length (pages (pdfDoc st))) \<and>
    previewSizes (pageIndex field) = Some previewSize \<and>
    columnValue ext row (columnName field) = val \<and> val \<noteq> [] \<and> val \<noteq> ''undefined'' \<and>
    loadFont ext rowIndex field (str_or (fontFamily field) ''Inter'') st = (Inr customFont, st') \<and>
    (let nativePage = pages (pdfDoc st) ! nat (pageIndex field - 1);
         scaleFactor = width nativePage / width previewSize;
         size = num_or (fontSize field) 12 * opt_num_or (scaleX field) 1 * scaleFactor;
         color = hexToRgb (fill field)
     in drawTextThrows ext rowIndex (field_id field) val
          \<lparr>opt_x = field_x field * scaleFactor,
           opt_y = height nativePage - field_y field * scaleFactor -
                   heightAtSize ext customFont size * 0.8,
           opt_font = customFont, opt_size = size,
           opt_color = RGB (rgb_r color) (rgb_g color) (rgb_b color),
           opt_rotate = - opt_num_or (angle field) 0\<rparr>) \<longrightarrow>
      processField ext rowIndex row previewSizes field st = st' \<and>
      content (pdfDoc (processField ext rowIndex row previewSizes field st)) = content (pdfDoc st)) \<and>
   fieldLoop ext rowIndex row previewSizes (before @ field # after) st0 =
     fieldLoop ext rowIndex row previewSizes after
       (processField ext rowIndex row previewSizes field
          (fieldLoop ext rowIndex row previewSizes before st0)) \<and>
   (load ext rowIndex templateBytes \<noteq> None \<and> (\<forall>doc. save ext rowIndex doc \<noteq> None) \<longrightarrow>
      (\<exists>pdfBytes. fst (processRow ext templateBytes fieldList previewSizes rowIndex row cache) =
                    Inr pdfBytes))"
proof -
  have font: "content (pdfDoc (processField ext rowIndex row previewSizes field st)) = content (pdfDoc st)"
    if "fst (loadFont ext rowIndex field (str_or (fontFamily field) ''Inter'') st) = Inl e" for e
  proof (cases rule: processField_cases [of ext rowIndex row previewSizes field st])
    case skipped
    then show ?thesis by simp
  next
    case (fontError e st')
    then show ?thesis by (simp add: loadFont_keeps)
  next
    case (drawError font st')
    then show ?thesis by (simp add: loadFont_keeps)
  next
    case (drawn font st' p val options)
    with that show ?thesis by simp
  qed
  have draw: "processField ext rowIndex row previewSizes field st = st' \<and>
      content (pdfDoc (processField ext rowIndex row previewSizes field st)) = content (pdfDoc st)"
    if h: "1 \<le> pageIndex field \<and> pageIndex field \<le> int (length (pages (pdfDoc st))) \<and>
    previewSizes (pageIndex field) = Some previewSize \<and>
    columnValue ext row (columnName field) = val \<and> val \<noteq> [] \<and> val \<noteq> ''undefined'' \<and>
    loadFont ext rowIndex field (str_or (fontFamily field) ''Inter'') st = (Inr customFont, st') \<and>
    (let nativePage = pages (pdfDoc st) ! nat (pageIndex field - 1);
         scaleFactor = width nativePage / width previewSize;
         size = num_or (fontSize field) 12 * opt_num_or (scaleX field) 1 * scaleFactor;
         color = hexToRgb (fill field)
     in drawTextThrows ext rowIndex (field_id field) val
          \<lparr>opt_x = field_x field * scaleFactor,
           opt_y = height nativePage - field_y field * scaleFactor -
                   heightAtSize ext customFont size * 0.8,
           opt_font = customFont, opt_size = size,
           opt_color = RGB (rgb_r color) (rgb_g color) (rgb_b color),
           opt_rotate = - opt_num_or (angle field) 0\<rparr>)"
  proof -
    from h have r: "1 \<le> pageIndex field" "pageIndex field \<le> int (length (pages (pdfDoc st)))"
      and pv: "previewSizes (pageIndex field) = Some previewSize"
      and cv: "columnValue ext row (columnName field) = val"
      and v: "val \<noteq> []" "val \<noteq> ''undefined''"
      and lf: "loadFont ext rowIndex field (str_or (fontFamily field) ''Inter'') st = (Inr customFont, st')"
      by blast+
    from h have thr: "drawField ext rowIndex field (nat (pageIndex field - 1))
        (height (pages (pdfDoc st) ! nat (pageIndex field - 1)))
        (width (pages (pdfDoc st) ! nat (pageIndex field - 1)) / width previewSize)
        val customFont st' = Inl DrawTextError"
      by (simp add: drawField_result Let_def)
    note eq = processField_draw [where ps = previewSizes and field = field and st = st
      and i = rowIndex and ext = ext and row = row and val = val, OF r pv cv v]
    have "processField ext rowIndex row previewSizes field st = st'"
      unfolding eq lf by (simp add: thr)
    moreover have "content (pdfDoc st') = content (pdfDoc st)"
      using lf by (simp add: loadFont_keeps)
    ultimately show ?thesis by simp
  qed
  have loop: "fieldLoop ext rowIndex row previewSizes (before @ field # after) st0 =
     fieldLoop ext rowIndex row previewSizes after
       (processField ext rowIndex row previewSizes field
          (fieldLoop ext rowIndex row previewSizes before st0))"
    by (simp add: fieldLoop_append)
  have rowOk: "\<exists>pdfBytes. fst (processRow ext templateBytes fieldList previewSizes rowIndex row cache) =
                    Inr pdfBytes"
    if "load ext rowIndex templateBytes \<noteq> None \<and> (\<forall>doc. save ext rowIndex doc \<noteq> None)"
  proof (cases "fst (processRow ext templateBytes fieldList previewSizes rowIndex row cache)")
    case (Inl e)
    from processRow_failure [OF Inl] that show ?thesis by blast
  next
    case (Inr b)
    then show ?thesis by blast
  qed
  show ?thesis
    using processField_page_skip [of field st ext rowIndex row previewSizes]
      processField_preview_skip [of previewSizes field ext rowIndex row st]
      font draw loop rowOk
    by blast
qed

theorem per_field_errors_skip_only_the_field_witness:
  "processField demoExt 0 demoRow demoPreviewSizes
     (demoField\<lparr>field_id := ''f-page'', pageIndex := 7\<rparr>) demoState = demoState \<and>
   processField demoExt 0 demoRow demoPreviewSizes
     (demoField\<lparr>field_id := ''f-prev'', pageIndex := 2\<rparr>) demoState = demoState \<and>
   fst (loadFont demoExt 0 (demoField\<lparr>field_id := ''f-font''\<rparr>) ''Roboto'' demoState) =
     Inl CriticalFontError \<and>
   content (pdfDoc (processField demoExt 0 demoRow demoPreviewSizes
     (demoField\<lparr>field_id := ''f-font''\<rparr>) demoState)) = [] \<and>
   drawTextThrows (demoExt\<lparr>drawTextThrows := \<lambda>i fid val options. 30 < opt_size options\<rparr>)
     0 ''f-name'' ''Ada''
     \<lparr>opt_x = 200, opt_y = 660, opt_font = PDFFont [7], opt_size = 40,
      opt_color = RGB 1 0 (1 / 5), opt_rotate = - 30\<rparr> \<and>
   processField (demoExt\<lparr>drawTextThrows := \<lambda>i fid val options. 30 < opt_size options\<rparr>)
     0 demoRow demoPreviewSizes demoField demoState =
     \<lparr>pdfDoc = demoTemplate\<lparr>fonts := [PDFFont [7]]\<rparr>,
      loadedFonts = [''Roboto'' \<mapsto> PDFFont [7]],
      fontCache = [''Roboto'' \<mapsto> [7]]\<rparr> \<and>
   content (pdfDoc (processField
     (demoExt\<lparr>drawTextThrows := \<lambda>i fid val options. 30 < opt_size options\<rparr>)
     0 demoRow demoPreviewSizes (demoField\<lparr>scaleX := Some 1\<rparr>) demoState)) =
     [(0, DrawText ''Ada''
            \<lparr>opt_x = 200, opt_y = 676, opt_font = PDFFont [7], opt_size = 20,
             opt_color = RGB 1 0 (1 / 5), opt_rotate = - 30\<rparr>)] \<and>
   fst (processRow demoExt []
     [demoField\<lparr>field_id := ''f-page'', pageIndex := 7\<rparr>,
      demoField\<lparr>field_id := ''f-prev'', pageIndex := 2\<rparr>,
      demoField\<lparr>field_id := ''f-font''\<rparr>,
      demoField\<lparr>field_id := ''f-draw''\<rparr>,
      demoField] demoPreviewSizes 0 demoRow Map.empty) = Inr [0, 1]"
proof -
  let ?ext = "demoExt\<lparr>drawTextThrows := \<lambda>i fid val options. 30 < opt_size options\<rparr>"
  let ?st1 = "\<lparr>pdfDoc = demoTemplate\<lparr>fonts := [PDFFont [7]]\<rparr>,
      loadedFonts = [''Roboto'' \<mapsto> PDFFont [7]],
      fontCache = [''Roboto'' \<mapsto> [7]]\<rparr>"
  have c0: "content (pdfDoc demoState) = []" by (simp add: demoState_def demoTemplate_def)
  have h1: "pageIndex (demoField\<lparr>field_id := ''f-page'', pageIndex := 7\<rparr>) < 1 \<or>
      int (length (pages (pdfDoc demoState))) < pageIndex (demoField\<lparr>field_id := ''f-page'', pageIndex := 7\<rparr>)"
    by (simp add: demoState_def demoTemplate_def)
  from per_field_errors_skip_only_the_field [where ext = demoExt and rowIndex = 0
      and row = demoRow and previewSizes = demoPreviewSizes and st = demoState
      and field = "demoField\<lparr>field_id := ''f-page'', pageIndex := 7\<rparr>"] h1
  have r1: "processField demoExt 0 demoRow demoPreviewSizes
     (demoField\<lparr>field_id := ''f-page'', pageIndex := 7\<rparr>) demoState = demoState"
    by blast
  have h2: "demoPreviewSizes (pageIndex (demoField\<lparr>field_id := ''f-prev'', pageIndex := 2\<rparr>)) = None"
    by (simp add: demoPreviewSizes_def)
  from per_field_errors_skip_only_the_field [where ext = demoExt and rowIndex = 0
      and row = demoRow and previewSizes = demoPreviewSizes and st = demoState
      and field = "demoField\<lparr>field_id := ''f-prev'', pageIndex := 2\<rparr>"] h2
  have r2: "processField demoExt 0 demoRow demoPreviewSizes
     (demoField\<lparr>field_id := ''f-prev'', pageIndex := 2\<rparr>) demoState = demoState"
    by blast
  have l3: "fst (loadFont demoExt 0 (demoField\<lparr>field_id := ''f-font''\<rparr>) ''Roboto'' demoState) =
     Inl CriticalFontError"
    by (simp add: demo_loadFont)
  have h3: "\<exists>e. fst (loadFont demoExt 0 (demoField\<lparr>field_id := ''f-font''\<rparr>)
      (str_or (fontFamily (demoField\<lparr>field_id := ''f-font''\<rparr>)) ''Inter'') demoState) = Inl e"
    using l3 by (simp add: str_or_def demoField_def)
  from per_field_errors_skip_only_the_field [where ext = demoExt and rowIndex = 0
      and row = demoRow and previewSizes = demoPreviewSizes and st = demoState
      and field = "demoField\<lparr>field_id := ''f-font''\<rparr>"] h3 c0
  have r3: "content (pdfDoc (processField demoExt 0 demoRow demoPreviewSizes
     (demoField\<lparr>field_id := ''f-font''\<rparr>) demoState)) = []"
    by simp
  have t4: "drawTextThrows ?ext 0 ''f-name'' ''Ada''
     \<lparr>opt_x = 200, opt_y = 660, opt_font = PDFFont [7], opt_size = 40,
      opt_color = RGB 1 0 (1 / 5), opt_rotate = - 30\<rparr>"
    by simp
  have h4: "1 \<le> pageIndex demoField \<and> pageIndex demoField \<le> int (length (pages (pdfDoc demoState))) \<and>
    demoPreviewSizes (pageIndex demoField) = Some \<lparr>width = 306, height = 396\<rparr> \<and>
    columnValue ?ext demoRow (columnName demoField) = ''Ada'' \<and> ''Ada'' \<noteq> [] \<and>
    ''Ada'' \<noteq> ''undefined'' \<and>
    loadFont ?ext 0 demoField (str_or (fontFamily demoField) ''Inter'') demoState =
      (Inr (PDFFont [7]), ?st1) \<and>
    (let nativePage = pages (pdfDoc demoState) ! nat (pageIndex demoField - 1);
         scaleFactor = width nativePage / width \<lparr>width = 306, height = 396\<rparr>;
         size = num_or (fontSize demoField) 12 * opt_num_or (scaleX demoField) 1 * scaleFactor;
         color = hexToRgb (fill demoField)
     in drawTextThrows ?ext 0 (field_id demoField) ''Ada''
          \<lparr>opt_x = field_x demoField * scaleFactor,
           opt_y = height nativePage - field_y demoField * scaleFactor -
                   heightAtSize ?ext (PDFFont [7]) size * 0.8,
           opt_font = PDFFont [7], opt_size = size,
           opt_color = RGB (rgb_r color) (rgb_g color) (rgb_b color),
           opt_rotate = - opt_num_or (angle demoField) 0\<rparr>)"
    by (simp add: demo_simps)
  from per_field_errors_skip_only_the_field [where ext = ?ext and rowIndex = 0
      and row = demoRow and previewSizes = demoPreviewSizes and st = demoState
      and field = demoField and previewSize = "\<lparr>width = 306, height = 396\<rparr>"
      and val = "''Ada''" and customFont = "PDFFont [7]" and st' = ?st1] h4
  have r4: "processField ?ext 0 demoRow demoPreviewSizes demoField demoState = ?st1"
    by blast
  have r6: "content (pdfDoc (processField ?ext 0 demoRow demoPreviewSizes
       (demoField\<lparr>scaleX := Some 1\<rparr>) demoState)) =
     [(0, DrawText ''Ada''
            \<lparr>opt_x = 200, opt_y = 676, opt_font = PDFFont [7], opt_size = 20,
             opt_color = RGB 1 0 (1 / 5), opt_rotate = - 30\<rparr>)]"
    by (simp add: demo_simps)
  have r5: "fst (processRow demoExt []
     [demoField\<lparr>field_id := ''f-page'', pageIndex := 7\<rparr>,
      demoField\<lparr>field_id := ''f-prev'', pageIndex := 2\<rparr>,
      demoField\<lparr>field_id := ''f-font''\<rparr>,
      demoField\<lparr>field_id := ''f-draw''\<rparr>,
      demoField] demoPreviewSizes 0 demoRow Map.empty) = Inr [0, 1]"
    by (simp add: demo_simps)
  from r1 r2 l3 r3 t4 r4 r6 r5 show ?thesis by blast
qed

section \<open>What generatePDFs does with a failing row\<close>

text \<open>
  Claim C3.  The list \<open>generatePDFs\<close> returns is the list of the buffers of the rows
  that succeeded, in row order, with nothing in the place of a row that failed; there
  is one outcome per input row, and a row fails only when opening the template or
  saving the document throws.  In particular five rows of which the third fails give
  four buffers, those of rows 1, 2, 4 and 5 in this order.
\<close>

theorem generatePDFs_skips_failed_rows:
  "fst (generatePDFs ext templateBytes excelData fieldList previewSizes cache) =
     successes (rowOutcomes ext templateBytes fieldList previewSizes 0 (rows excelData) cache) \<and>
   length (rowOutcomes ext templateBytes fieldList previewSizes 0 (rows excelData) cache) =
     length (rows excelData) \<and>
   (fst (processRow ext templateBytes fieldList previewSizes rowIndex row rowCache) = Inl e \<longrightarrow>
      (load ext rowIndex templateBytes = None \<and> e = LoadError) \<or>
      (\<exists>doc. save ext rowIndex doc = None \<and> e = SaveError)) \<and>
   (rowOutcomes ext templateBytes fieldList previewSizes 0 (rows excelData) cache =
      [Inr b1, Inr b2, Inl e3, Inr b4, Inr b5] \<longrightarrow>
    fst (generatePDFs ext templateBytes excelData fieldList previewSizes cache) = [b1, b2, b4, b5])"
proof -
  have res: "fst (generatePDFs ext templateBytes excelData fieldList previewSizes cache) =
     successes (rowOutcomes ext templateBytes fieldList previewSizes 0 (rows excelData) cache)"
    unfolding generatePDFs_def by (simp add: rowLoop_successes)
  have five: "rowOutcomes ext templateBytes fieldList previewSizes 0 (rows excelData) cache =
      [Inr b1, Inr b2, Inl e3, Inr b4, Inr b5] \<longrightarrow>
    fst (generatePDFs ext templateBytes excelData fieldList previewSizes cache) = [b1, b2, b4, b5]"
    unfolding res by simp
  show ?thesis
    using res five length_rowOutcomes processRow_failure by blast
qed

theorem generatePDFs_skips_failed_rows_witness:
  "rowOutcomes demoExt [] [demoField] demoPreviewSizes 0
     [demoRow, demoRow, demoRow, demoRow, demoRow] Map.empty =
     [Inr [0, 1], Inr [1, 1], Inl SaveError, Inr [3, 1], Inr [4, 1]] \<and>
   fst (processRow demoExt [] [demoField] demoPreviewSizes 2 demoRow [''Roboto'' \<mapsto> [7]]) =
     Inl SaveError \<and>
   save demoExt 2 demoTemplate = None \<and>
   fst (generatePDFs demoExt []
          \<lparr>headers = [], columns = [], rows = [demoRow, demoRow, demoRow, demoRow, demoRow]\<rparr>
          [demoField] demoPreviewSizes Map.empty) =
     [[0, 1], [1, 1], [3, 1], [4, 1]]"
proof -
  have outs: "rowOutcomes demoExt [] [demoField] demoPreviewSizes 0
     [demoRow, demoRow, demoRow, demoRow, demoRow] Map.empty =
     [Inr [0, 1], Inr [1, 1], Inl SaveError, Inr [3, 1], Inr [4, 1]]"
    by (simp add: demo_row_first demo_row_next)
  have fail: "fst (processRow demoExt [] [demoField] demoPreviewSizes 2 demoRow [''Roboto'' \<mapsto> [7]]) =
     Inl SaveError"
    by (simp add: demo_row_next)
  have sv: "save demoExt 2 demoTemplate = None" by (simp add: demoExt_def)
  from generatePDFs_skips_failed_rows [where ext = demoExt and templateBytes = "[]"
      and excelData = "\<lparr>headers = [], columns = [], rows = [demoRow, demoRow, demoRow, demoRow, demoRow]\<rparr>"
      and fieldList = "[demoField]" and previewSizes = demoPreviewSizes and cache = Map.empty
      and ?b1.0 = "[0, 1]" and ?b2.0 = "[1, 1]" and ?e3.0 = SaveError and ?b4.0 = "[3, 1]"
      and ?b5.0 = "[4, 1]"]
  have "fst (generatePDFs demoExt []
          \<lparr>headers = [], columns = [], rows = [demoRow, demoRow, demoRow, demoRow, demoRow]\<rparr>
          [demoField] demoPreviewSizes Map.empty) =
     [[0, 1], [1, 1], [3, 1], [4, 1]]"
    using outs by simp
  with outs fail sv show ?thesis by blast
qed

section \<open>The rows the tabular decoder builds\<close>










lemma someNonEmpty_iff: "someNonEmpty r \<longleftrightarrow> (\<exists>val \<in> set (objectValues r). val \<noteq> JStr [])"
  by (simp add: someNonEmpty_def list_ex_iff)

lemma parse_twinWorkbook:
  "parseExcelFile (numToString demoExt) twinWorkbook ''Sheet1'' =
   Inr \<lparr>headers = [JStr ''A'', JStr ''A''], columns = [JStr ''A'', JStr ''A''],
        rows = [[(''A'', JStr ''2'')]]\<rparr>"
  by (simp add: parseExcelFile_def twinWorkbook_def buildRow_def storeCell_def arrayGet_def
        js_or_def someNonEmpty_def objectValues_def Let_def)

lemma parse_demoWorkbook:
  "parseExcelFile (numToString demoExt) demoWorkbook ''Sheet1'' =
   Inr \<lparr>headers = [JStr ''name'', JStr ''score''], columns = [JStr ''name'', JStr ''score''],
        rows = [[(''name'', JStr ''Ada''), (''score'', JStr [])],
                [(''name'', JStr ''Bob''), (''score'', JNum 7)]]\<rparr>"
  by (simp add: parseExcelFile_def demoWorkbook_def buildRow_def storeCell_def arrayGet_def
        js_or_def someNonEmpty_def objectValues_def Let_def)

text \<open>
  Claim C7, as the code has it.  The claim is that the columns of a parsed sheet are
  distinct and non-empty and that every row whose values are all empty is dropped.
  The column names are not made distinct: the sheet whose header row is \<open>A, A\<close> parses
  to the columns \<open>A, A\<close> (and to rows with the single key \<open>A\<close>, holding the second
  cell).
\<close>

theorem parseExcelFile_duplicate_columns:
  "parseExcelFile (numToString demoExt) twinWorkbook ''Sheet1'' =
   Inr \<lparr>headers = [JStr ''A'', JStr ''A''], columns = [JStr ''A'', JStr ''A''],
        rows = [[(''A'', JStr ''2'')]]\<rparr> \<and>
   \<not> distinct (columns \<lparr>headers = [JStr ''A'', JStr ''A''], columns = [JStr ''A'', JStr ''A''],
        rows = [[(''A'', JStr ''2'')]]\<rparr>)"
  by (simp add: parse_twinWorkbook)

text \<open>
  Claim C7, amended.  For every sheet that parses, the columns are the cells of the
  first row that are truthy, in the sheet's order, so each of them is non-empty (a
  name may occur more than once); the headers are the same list; and the rows are the
  objects built from the data rows from which every object whose values are all the
  empty string has been dropped, so each remaining row has a value that is not empty.
\<close>

theorem parseExcelFile_columns_and_rows:
  assumes "parseExcelFile numStr workbook sheetName = Inr parsed"
  shows "(\<forall>h \<in> set (columns parsed). truthy h \<and> h \<noteq> JStr []) \<and>
         (\<forall>r \<in> set (rows parsed). \<exists>val \<in> set (objectValues r). val \<noteq> JStr []) \<and>
         headers parsed = columns parsed \<and>
         (\<exists>firstRow dataRows.
            workbook sheetName = Some (firstRow # dataRows) \<and>
            columns parsed = filter truthy firstRow \<and>
            rows parsed = filter someNonEmpty (map (buildRow numStr (columns parsed)) dataRows))"
proof -
  from assms obtain firstRow dataRows where
    wb: "workbook sheetName = Some (firstRow # dataRows)"
    and p: "parsed = \<lparr>headers = filter truthy firstRow, columns = filter truthy firstRow,
              rows = filter someNonEmpty (map (buildRow numStr (filter truthy firstRow)) dataRows)\<rparr>"
    by (auto simp: parseExcelFile_def Let_def split: option.splits list.splits)
  have cols: "\<forall>h \<in> set (columns parsed). truthy h \<and> h \<noteq> JStr []"
    unfolding p by auto
  have rws: "\<forall>r \<in> set (rows parsed). \<exists>val \<in> set (objectValues r). val \<noteq> JStr []"
    unfolding p by (simp add: someNonEmpty_iff)
  show ?thesis
    using wb cols rws by (simp add: p)
qed

theorem parseExcelFile_columns_and_rows_witness:
  "parseExcelFile (numToString demoExt) demoWorkbook ''Sheet1'' =
   Inr \<lparr>headers = [JStr ''name'', JStr ''score''], columns = [JStr ''name'', JStr ''score''],
        rows = [[(''name'', JStr ''Ada''), (''score'', JStr [])],
                [(''name'', JStr ''Bob''), (''score'', JNum 7)]]\<rparr> \<and>
   truthy (JStr ''name'') \<and> truthy (JStr ''score'') \<and>
   someNonEmpty [(''name'', JStr ''Ada''), (''score'', JStr [])] \<and>
   \<not> someNonEmpty (buildRow (numToString demoExt) [JStr ''name'', JStr ''score''] [JStr [], JNum 0])"
proof -
  note t = parseExcelFile_columns_and_rows [OF parse_demoWorkbook]
  from t have "truthy (JStr ''name'') \<and> truthy (JStr ''score'')" by simp
  moreover have "someNonEmpty [(''name'', JStr ''Ada''), (''score'', JStr [])]"
    by (simp add: someNonEmpty_def objectValues_def)
  moreover have "\<not> someNonEmpty (buildRow (numToString demoExt) [JStr ''name'', JStr ''score'']
      [JStr [], JNum 0])"
    by (simp add: someNonEmpty_def objectValues_def buildRow_def storeCell_def arrayGet_def js_or_def)
  ultimately show ?thesis using parse_demoWorkbook by blast
qed






section \<open>What the completion screen shows\<close>

lemma demo_three_rows:
  "fst (generatePDFs demoExt []
          \<lparr>headers = [], columns = [], rows = [demoRow, demoRow, demoRow]\<rparr>
          [demoField] demoPreviewSizes Map.empty) = [[0, 1], [1, 1]]"
  by (simp add: generatePDFs_def demo_row_first demo_row_next)

lemma unreadable_template:
  "fst (generatePDFs (demoExt\<lparr>load := \<lambda>i templateBytes. None\<rparr>) []
          \<lparr>headers = [], columns = [], rows = [demoRow, demoRow, demoRow]\<rparr>
          [demoField] demoPreviewSizes Map.empty) = []"
  by (simp add: generatePDFs_def processRow_def)

lemma demo_createZipArchive:
  "createZipArchive (demoExt\<lparr>load := f\<rparr>) bufs name = Inr (concat (map snd (zipFiles bufs name))) \<and>
   createZipArchive demoExt bufs name = Inr (concat (map snd (zipFiles bufs name)))"
  by (simp add: createZipArchive_def demoExt_def)

text \<open>
  Claim C8.  The claim is that the completion screen reports the number of documents
  produced.  The code does otherwise, and this is what is proved: the number shown
  above ``Documents Created'' is the number of input rows, whatever \<open>generatePDFs\<close>
  returned.  In the worked example three rows whose third cannot be saved complete
  with two buffers, and a template that cannot be opened completes with none; the
  screen shows 3 both times.
\<close>

theorem completion_screen_counts_input_rows:
  "Step3Generate \<lparr>isComplete = True, shownError = e\<rparr> excelData fieldList =
     CompletionScreen (length (rows excelData)) (length fieldList) \<and>
   handleGenerate demoExt []
       \<lparr>headers = [], columns = [], rows = [demoRow, demoRow, demoRow]\<rparr>
       [demoField] demoPreviewSizes Map.empty =
     (\<lparr>isComplete = True, shownError = None\<rparr>, [[0, 1], [1, 1]]) \<and>
   Step3Generate
     (fst (handleGenerate demoExt []
          \<lparr>headers = [], columns = [], rows = [demoRow, demoRow, demoRow]\<rparr>
          [demoField] demoPreviewSizes Map.empty))
     \<lparr>headers = [], columns = [], rows = [demoRow, demoRow, demoRow]\<rparr> [demoField] =
     CompletionScreen 3 1 \<and>
   handleGenerate (demoExt\<lparr>load := \<lambda>i templateBytes. None\<rparr>) []
       \<lparr>headers = [], columns = [], rows = [demoRow, demoRow, demoRow]\<rparr>
       [demoField] demoPreviewSizes Map.empty =
     (\<lparr>isComplete = True, shownError = None\<rparr>, []) \<and>
   Step3Generate
     (fst (handleGenerate (demoExt\<lparr>load := \<lambda>i templateBytes. None\<rparr>) []
          \<lparr>headers = [], columns = [], rows = [demoRow, demoRow, demoRow]\<rparr>
          [demoField] demoPreviewSizes Map.empty))
     \<lparr>headers = [], columns = [], rows = [demoRow, demoRow, demoRow]\<rparr> [demoField] =
     CompletionScreen 3 1"
proof -
  have hg: "handleGenerate demoExt []
          \<lparr>headers = [], columns = [], rows = [demoRow, demoRow, demoRow]\<rparr>
          [demoField] demoPreviewSizes Map.empty =
        (\<lparr>isComplete = True, shownError = None\<rparr>, [[0, 1], [1, 1]])"
    by (simp add: handleGenerate_def Let_def demo_three_rows demo_createZipArchive)
  have hu: "handleGenerate (demoExt\<lparr>load := \<lambda>i templateBytes. None\<rparr>) []
          \<lparr>headers = [], columns = [], rows = [demoRow, demoRow, demoRow]\<rparr>
          [demoField] demoPreviewSizes Map.empty =
        (\<lparr>isComplete = True, shownError = None\<rparr>, [])"
    by (simp add: handleGenerate_def Let_def unreadable_template demo_createZipArchive)
  show ?thesis
    by (simp add: hg hu Step3Generate_def)
qed

end
